theory Spec2Isabelle
  imports Complex_Main "HOL-Library.Char_ord" "HOL-Library.List_Lexorder" "HOL-Library.AList"
begin

section \<open>Python values, failures and string helpers\<close>

text \<open>
  The arguments that reach the constructors and \<open>process_order\<close> are dynamically typed.
  They are modelled by the scalar values \<open>None\<close>, \<open>bool\<close>, \<open>int\<close>, \<open>float\<close> and
  \<open>str\<close>. A \<open>bool\<close> is an instance of \<open>int\<close>, as in Python, and counts as 0 or 1
  in comparisons and arithmetic. A float is modelled by the real number it denotes
  (infinities and NaN are outside the model); what Python computes on floats, rounding
  included, is taken from the built-ins below and never computed on the reals. A raised
  exception is a value of type \<open>error\<close>; \<open>ValueError\<close> is the exception the data model
  raises for invalid input. \<open>Timeout\<close>, \<open>ConnectionError\<close>,
  \<open>RequestException\<close> and \<open>RequestsJSONDecodeError\<close> are the classes of
  \<open>requests.exceptions\<close> (the last one is \<open>requests.exceptions.JSONDecodeError\<close>);
  \<open>JSONDecodeError\<close> is \<open>json.JSONDecodeError\<close>. A string is the list of its
  characters, and a character of the model is one of the 256 with the lowest code points.
  The messages of the exceptions that Python itself raises are worded as CPython 3.11
  words them.
\<close>

datatype pyval = PyNone | PyBool bool | PyInt int | PyFloat real | PyStr string

datatype error =
    ValueError string
  | AttributeError string
  | TypeError string
  | OverflowError string
  | Exception string
  | Timeout string
  | ConnectionError string
  | RequestException string
  | RequestsJSONDecodeError string
  | JSONDecodeError string

text \<open>\<open>str(e)\<close>: the message an exception carries.\<close>

fun error_str :: "error \<Rightarrow> string" where
  "error_str (ValueError m) = m"
| "error_str (AttributeError m) = m"
| "error_str (TypeError m) = m"
| "error_str (OverflowError m) = m"
| "error_str (Exception m) = m"
| "error_str (Timeout m) = m"
| "error_str (ConnectionError m) = m"
| "error_str (RequestException m) = m"
| "error_str (RequestsJSONDecodeError m) = m"
| "error_str (JSONDecodeError m) = m"

fun truthy :: "pyval \<Rightarrow> bool" where
  "truthy PyNone = False"
| "truthy (PyBool b) = b"
| "truthy (PyInt i) = (i \<noteq> 0)"
| "truthy (PyFloat r) = (r \<noteq> 0)"
| "truthy (PyStr s) = (s \<noteq> [])"

fun isinstance_str :: "pyval \<Rightarrow> bool" where
  "isinstance_str (PyStr s) = True"
| "isinstance_str v = False"

fun isinstance_int :: "pyval \<Rightarrow> bool" where
  "isinstance_int (PyInt i) = True"
| "isinstance_int (PyBool b) = True"
| "isinstance_int v = False"

fun isinstance_int_float :: "pyval \<Rightarrow> bool" where
  "isinstance_int_float (PyInt i) = True"
| "isinstance_int_float (PyBool b) = True"
| "isinstance_int_float (PyFloat r) = True"
| "isinstance_int_float v = False"

text \<open>The number a numeric value denotes; only consulted after an \<open>isinstance\<close> check.\<close>

fun num_of :: "pyval \<Rightarrow> real" where
  "num_of (PyInt i) = of_int i"
| "num_of (PyBool b) = of_bool b"
| "num_of (PyFloat r) = r"
| "num_of v = 0"

fun int_of :: "pyval \<Rightarrow> int" where
  "int_of (PyInt i) = i"
| "int_of (PyBool b) = of_bool b"
| "int_of v = 0"

fun str_of :: "pyval \<Rightarrow> string" where
  "str_of (PyStr s) = s"
| "str_of v = []"

text \<open>
  \<open>str.upper()\<close> and \<open>str.lower()\<close> on strings of ASCII characters. The first is
  applied to the hexadecimal digits of a UUID only; the second is used where the model is
  evaluated on ASCII examples, the code's \<open>lower\<close> being a built-in below.
\<close>

definition ascii_lower_char :: "char \<Rightarrow> char" where
  "ascii_lower_char c =
     (case map_of (zip ''ABCDEFGHIJKLMNOPQRSTUVWXYZ'' ''abcdefghijklmnopqrstuvwxyz'') c of
        Some d \<Rightarrow> d | None \<Rightarrow> c)"

definition upper_char :: "char \<Rightarrow> char" where
  "upper_char c =
     (case map_of (zip ''abcdefghijklmnopqrstuvwxyz'' ''ABCDEFGHIJKLMNOPQRSTUVWXYZ'') c of
        Some d \<Rightarrow> d | None \<Rightarrow> c)"

definition ascii_lower :: "string \<Rightarrow> string" where
  "ascii_lower s = map ascii_lower_char s"

definition upper :: "string \<Rightarrow> string" where
  "upper s = map upper_char s"

text \<open>\<open>sep.join(parts)\<close>.\<close>

fun join :: "string \<Rightarrow> string list \<Rightarrow> string" where
  "join sep [] = []"
| "join sep [x] = x"
| "join sep (x # y # ys) = x @ sep @ join sep (y # ys)"

text \<open>\<open>needle in hay\<close> on strings: \<open>needle\<close> occurs as a contiguous run.\<close>

fun py_in :: "string \<Rightarrow> string \<Rightarrow> bool" where
  "py_in s [] = (s = [])"
| "py_in s (c # cs) = (take (length s) (c # cs) = s \<or> py_in s cs)"

text \<open>The characters \<open>str.isspace()\<close> accepts among the code points below 256.\<close>

definition is_space :: "char \<Rightarrow> bool" where
  "is_space c = (c \<in> set [CHR 0x09, CHR 0x0A, CHR 0x0B, CHR 0x0C, CHR 0x0D,
                           CHR 0x1C, CHR 0x1D, CHR 0x1E, CHR 0x1F, CHR 0x20, CHR 0x85, CHR 0xA0])"

text \<open>\<open>s.split()\<close>: the maximal runs of non-whitespace characters.\<close>

fun split_ws :: "string \<Rightarrow> string \<Rightarrow> string list" where
  "split_ws cur [] = (if cur = [] then [] else [cur])"
| "split_ws cur (c # cs) =
     (if is_space c then (if cur = [] then split_ws [] cs else cur # split_ws [] cs)
      else split_ws (cur @ [c]) cs)"

definition py_split :: "string \<Rightarrow> string list" where
  "py_split s = split_ws [] s"

definition strip :: "string \<Rightarrow> string" where
  "strip s = rev (dropWhile is_space (rev (dropWhile is_space s)))"

text \<open>
  \<open>str(n)\<close> for an integer: decimal digits, with a minus sign when negative. CPython
  3.11 refuses conversions between strings and integers of more than
  \<open>sys.get_int_max_str_digits()\<close> digits, 4300 unless configured otherwise and none with
  the setting 0; the model has no such limit.
\<close>

definition digit_char :: "nat \<Rightarrow> char" where
  "digit_char d = ''0123456789'' ! d"

fun str_nat :: "nat \<Rightarrow> string" where
  "str_nat n = (if n < 10 then [digit_char n] else str_nat (n div 10) @ [digit_char (n mod 10)])"

declare str_nat.simps [simp del]

definition str_int :: "int \<Rightarrow> string" where
  "str_int i = (if i < 0 then CHR ''-'' # str_nat (nat (- i)) else str_nat (nat i))"

text \<open>
  \<open>int(s)\<close> for a string, base 10: surrounding whitespace is stripped, one sign may come
  first, then decimal digits with single underscores allowed between digits. \<open>None\<close>
  stands for the \<open>ValueError\<close> the conversion raises.
\<close>

definition is_digit :: "char \<Rightarrow> bool" where
  "is_digit c = (c \<in> set ''0123456789'')"

definition digit_val :: "char \<Rightarrow> nat" where
  "digit_val c = (case map_of (zip ''0123456789'' [0, 1, 2, 3, 4, 5, 6, 7, 8, 9]) c of
                    Some d \<Rightarrow> d | None \<Rightarrow> 0)"

fun digits_ok :: "string \<Rightarrow> bool" where
  "digits_ok [] = False"
| "digits_ok [c] = is_digit c"
| "digits_ok (c # d # cs) =
     (is_digit c \<and> (if d = CHR ''_'' then digits_ok cs else digits_ok (d # cs)))"

definition nat_of_digits :: "string \<Rightarrow> nat" where
  "nat_of_digits s = foldl (\<lambda>a c. 10 * a + digit_val c) 0 (filter (\<lambda>c. c \<noteq> CHR ''_'') s)"

definition int_of_str :: "string \<Rightarrow> int option" where
  "int_of_str s =
     (case strip s of
        [] \<Rightarrow> None
      | c # cs \<Rightarrow>
          if c = CHR ''-'' then (if digits_ok cs then Some (- int (nat_of_digits cs)) else None)
          else if c = CHR ''+'' then (if digits_ok cs then Some (int (nat_of_digits cs)) else None)
          else (if digits_ok (c # cs) then Some (int (nat_of_digits (c # cs))) else None))"



definition sq :: string where
  "sq = [CHR 0x27]"

text \<open>\<open>type(v).__name__\<close>, as the messages of Python's own exceptions show it.\<close>

fun type_name :: "pyval \<Rightarrow> string" where
  "type_name PyNone = ''NoneType''"
| "type_name (PyBool b) = ''bool''"
| "type_name (PyInt i) = ''int''"
| "type_name (PyFloat r) = ''float''"
| "type_name (PyStr s) = ''str''"

section \<open>Built-ins of the language\<close>

text \<open>
  What the code takes from Python itself and the model does not compute: \<open>s.lower()\<close>
  and \<open>repr(s)\<close> on a string; \<open>str(x)\<close> and the format \<open>:.2f\<close> on a float; \<open>float(s)\<close> on a string
  (\<open>None\<close> for its \<open>ValueError\<close>) and \<open>float(i)\<close> on an integer (\<open>None\<close> for its
  \<open>OverflowError\<close>); and the product \<open>x * i\<close> of a float and an integer, which
  converts the integer to a float (\<open>None\<close> for the \<open>OverflowError\<close> of an integer
  beyond the float range) and rounds. Every definition that depends on one of them takes
  this record as its first argument, and every theorem holds for whatever the built-ins
  are.
\<close>

record pybuiltins =
  lower :: "string \<Rightarrow> string"
  repr_str :: "string \<Rightarrow> string"
  float_str :: "real \<Rightarrow> string"
  format_2f :: "real \<Rightarrow> string"
  float_of_str :: "string \<Rightarrow> real option"
  float_of_int :: "int \<Rightarrow> real option"
  float_mul :: "real \<Rightarrow> int \<Rightarrow> real option"

text \<open>\<open>str(v)\<close>, which is also how an f-string shows \<open>v\<close>.\<close>

fun py_str :: "pybuiltins \<Rightarrow> pyval \<Rightarrow> string" where
  "py_str py PyNone = ''None''"
| "py_str py (PyBool b) = (if b then ''True'' else ''False'')"
| "py_str py (PyInt i) = str_int i"
| "py_str py (PyFloat r) = float_str py r"
| "py_str py (PyStr s) = s"

text \<open>\<open>int(v)\<close>: a string is parsed, a float is truncated towards zero.\<close>

fun py_int :: "pybuiltins \<Rightarrow> pyval \<Rightarrow> error + int" where
  "py_int py (PyStr s) =
     (case int_of_str s of
        Some i \<Rightarrow> Inr i
      | None \<Rightarrow> Inl (ValueError (''invalid literal for int() with base 10: '' @ repr_str py s)))"
| "py_int py (PyInt i) = Inr i"
| "py_int py (PyBool b) = Inr (of_bool b)"
| "py_int py (PyFloat r) = Inr (if 0 \<le> r then \<lfloor>r\<rfloor> else \<lceil>r\<rceil>)"
| "py_int py PyNone =
     Inl (TypeError (''int() argument must be a string, a bytes-like object or a real number, not ''
                       @ sq @ ''NoneType'' @ sq))"

text \<open>\<open>float(v)\<close>.\<close>

fun py_float :: "pybuiltins \<Rightarrow> pyval \<Rightarrow> error + real" where
  "py_float py (PyStr s) =
     (case float_of_str py s of
        Some r \<Rightarrow> Inr r
      | None \<Rightarrow> Inl (ValueError (''could not convert string to float: '' @ repr_str py s)))"
| "py_float py (PyInt i) =
     (case float_of_int py i of
        Some r \<Rightarrow> Inr r
      | None \<Rightarrow> Inl (OverflowError ''int too large to convert to float''))"
| "py_float py (PyBool b) = Inr (of_bool b)"
| "py_float py (PyFloat r) = Inr r"
| "py_float py PyNone =
     Inl (TypeError (''float() argument must be a string or a real number, not ''
                       @ sq @ ''NoneType'' @ sq))"

text \<open>
  The built-ins on plain values, for evaluating the model on examples: lowering of ASCII
  strings, the \<open>repr\<close> of a string of letters and digits, and floats whose value is an integer of modest size, which print as that
  integer followed by \<open>.0\<close> (\<open>.00\<close> under \<open>:.2f\<close>), are read back from that text, and
  multiply with an integer exactly.
\<close>

definition simple_float_of_str :: "string \<Rightarrow> real option" where
  "simple_float_of_str s =
     (case int_of_str s of
        Some i \<Rightarrow> Some (of_int i)
      | None \<Rightarrow>
          if 2 \<le> length s \<and> drop (length s - 2) s = ''.0''
          then map_option of_int (int_of_str (take (length s - 2) s))
          else None)"

definition simple_builtins :: pybuiltins where
  "simple_builtins =
     \<lparr>lower = ascii_lower,
      repr_str = (\<lambda>s. sq @ s @ sq),
      float_str = (\<lambda>x. str_int \<lfloor>x\<rfloor> @ ''.0''),
      format_2f = (\<lambda>x. str_int \<lfloor>x\<rfloor> @ ''.00''),
      float_of_str = simple_float_of_str,
      float_of_int = (\<lambda>i. Some (of_int i)),
      float_mul = (\<lambda>x i. Some (x * of_int i))\<rparr>"

section \<open>Domain data model (data_models.py)\<close>

subsection \<open>Product\<close>

text \<open>
  \<open>Product.__post_init__\<close> on the six field values as passed to the constructor:
  \<open>None\<close> when it returns, \<open>Some e\<close> when it raises \<open>e\<close>. The description is not
  inspected.
\<close>

definition Product_post_init ::
  "pyval \<Rightarrow> pyval \<Rightarrow> pyval \<Rightarrow> pyval \<Rightarrow> pyval \<Rightarrow> pyval \<Rightarrow> error option" where
  "Product_post_init product_id name description price stock_quantity category =
     (if \<not> truthy product_id \<or> \<not> isinstance_str product_id
        then Some (ValueError ''Product ID must be a non-empty string'')
      else if \<not> truthy name \<or> \<not> isinstance_str name
        then Some (ValueError ''Product name must be a non-empty string'')
      else if \<not> isinstance_int_float price \<or> num_of price < 0
        then Some (ValueError ''Price must be a non-negative number'')
      else if \<not> isinstance_int stock_quantity \<or> int_of stock_quantity < 0
        then Some (ValueError ''Stock quantity must be a non-negative integer'')
      else if \<not> truthy category \<or> \<not> isinstance_str category
        then Some (ValueError ''Category must be a non-empty string'')
      else None)"

text \<open>
  A constructed product. The validated fields hold values of their annotated types; the
  description, which nothing validates, holds whatever value was passed. Both catalog
  loaders build their products with \<open>Product.from_dict\<close>, which passes the price through
  \<open>float\<close> and the stock through \<open>int\<close> and hands over the description as the
  catalog file has it, so the price of a loaded product is a float and its stock an
  integer; a price passed to the constructor as an integer is kept as the number it denotes.
\<close>

record product =
  product_id :: string
  name :: string
  description :: pyval
  price :: real
  stock_quantity :: int
  category :: string

definition is_in_stock :: "product \<Rightarrow> int \<Rightarrow> bool" where
  "is_in_stock p quantity = (stock_quantity p \<ge> quantity)"

text \<open>The constructor: the dataclass stores the fields, then runs \<open>__post_init__\<close>.\<close>

definition Product_new ::
  "pyval \<Rightarrow> pyval \<Rightarrow> pyval \<Rightarrow> pyval \<Rightarrow> pyval \<Rightarrow> pyval \<Rightarrow> error + product" where
  "Product_new pid nm descr pr stock cat =
     (case Product_post_init pid nm descr pr stock cat of
        Some e \<Rightarrow> Inl e
      | None \<Rightarrow> Inr \<lparr>product_id = str_of pid, name = str_of nm, description = descr,
                      price = num_of pr, stock_quantity = int_of stock, category = str_of cat\<rparr>)"

text \<open>A product that passes its own validation, as every constructed product does.\<close>

definition Product_valid :: "product \<Rightarrow> bool" where
  "Product_valid p =
     (Product_post_init (PyStr (product_id p)) (PyStr (name p)) (description p)
        (PyFloat (price p)) (PyInt (stock_quantity p)) (PyStr (category p)) = None)"

subsection \<open>Order\<close>

text \<open>
  A constructed order. The quantity is an \<open>int\<close> or a \<open>bool\<close> and is kept as passed;
  the product name is not validated.
\<close>

record order =
  order_product_id :: string
  order_quantity :: pyval
  order_delivery_address :: string
  order_product_name :: pyval

definition Order_post_init :: "pyval \<Rightarrow> pyval \<Rightarrow> pyval \<Rightarrow> pyval \<Rightarrow> error option" where
  "Order_post_init pid quantity delivery_address product_name =
     (if \<not> truthy pid \<or> \<not> isinstance_str pid
        then Some (ValueError ''Product ID must be a non-empty string'')
      else if \<not> isinstance_int quantity \<or> int_of quantity \<le> 0
        then Some (ValueError ''Quantity must be a positive integer'')
      else if \<not> truthy delivery_address \<or> \<not> isinstance_str delivery_address
        then Some (ValueError ''Delivery address must be a non-empty string'')
      else None)"

definition Order_new :: "pyval \<Rightarrow> pyval \<Rightarrow> pyval \<Rightarrow> pyval \<Rightarrow> error + order" where
  "Order_new pid quantity delivery_address product_name =
     (case Order_post_init pid quantity delivery_address product_name of
        Some e \<Rightarrow> Inl e
      | None \<Rightarrow> Inr \<lparr>order_product_id = str_of pid, order_quantity = quantity,
                      order_delivery_address = str_of delivery_address,
                      order_product_name = product_name\<rparr>)"

subsection \<open>StoredOrder\<close>

text \<open>
  A constructed stored order. The quantity (an \<open>int\<close> or a \<open>bool\<close>), the total price
  (an \<open>int\<close>, a \<open>bool\<close> or a \<open>float\<close>) and the order date (not validated) are kept as
  passed.
\<close>

record stored_order =
  order_id :: string
  so_product_id :: string
  so_product_name :: string
  so_quantity :: pyval
  so_delivery_address :: string
  order_date :: pyval
  total_price :: pyval

definition StoredOrder_post_init ::
  "pyval \<Rightarrow> pyval \<Rightarrow> pyval \<Rightarrow> pyval \<Rightarrow> pyval \<Rightarrow> pyval \<Rightarrow> error option" where
  "StoredOrder_post_init oid pid pname quantity delivery_address total_v =
     (if \<not> truthy oid \<or> \<not> isinstance_str oid
        then Some (ValueError ''Order ID must be a non-empty string'')
      else if \<not> truthy pid \<or> \<not> isinstance_str pid
        then Some (ValueError ''Product ID must be a non-empty string'')
      else if \<not> truthy pname \<or> \<not> isinstance_str pname
        then Some (ValueError ''Product name must be a non-empty string'')
      else if \<not> isinstance_int quantity \<or> int_of quantity \<le> 0
        then Some (ValueError ''Quantity must be a positive integer'')
      else if \<not> truthy delivery_address \<or> \<not> isinstance_str delivery_address
        then Some (ValueError ''Delivery address must be a non-empty string'')
      else if \<not> isinstance_int_float total_v \<or> num_of total_v < 0
        then Some (ValueError ''Total price must be a non-negative number'')
      else None)"

definition StoredOrder_new ::
  "pyval \<Rightarrow> pyval \<Rightarrow> pyval \<Rightarrow> pyval \<Rightarrow> pyval \<Rightarrow> pyval \<Rightarrow> pyval \<Rightarrow> error + stored_order" where
  "StoredOrder_new oid pid pname quantity delivery_address date total_v =
     (case StoredOrder_post_init oid pid pname quantity delivery_address total_v of
        Some e \<Rightarrow> Inl e
      | None \<Rightarrow> Inr \<lparr>order_id = str_of oid, so_product_id = str_of pid,
                      so_product_name = str_of pname, so_quantity = quantity,
                      so_delivery_address = str_of delivery_address, order_date = date,
                      total_price = total_v\<rparr>)"

text \<open>A stored order that passes its own validation, as every constructed one does.\<close>

definition StoredOrder_valid :: "stored_order \<Rightarrow> bool" where
  "StoredOrder_valid x =
     (StoredOrder_post_init (PyStr (order_id x)) (PyStr (so_product_id x))
        (PyStr (so_product_name x)) (so_quantity x) (PyStr (so_delivery_address x))
        (total_price x) = None)"

text \<open>\<open>to_csv_row\<close> and \<open>from_csv_row\<close>; a row is a list of values.\<close>

definition to_csv_row :: "pybuiltins \<Rightarrow> stored_order \<Rightarrow> pyval list" where
  "to_csv_row py x =
     [PyStr (order_id x), PyStr (so_product_id x), PyStr (so_product_name x),
      PyStr (py_str py (so_quantity x)), PyStr (so_delivery_address x), order_date x,
      PyStr (py_str py (total_price x))]"

definition from_csv_row :: "pybuiltins \<Rightarrow> pyval list \<Rightarrow> error + stored_order" where
  "from_csv_row py row =
     (if length row \<noteq> 7 then Inl (ValueError ''CSV row must have exactly 7 columns'')
      else
        (case py_int py (row ! 3) of
           Inl err \<Rightarrow> Inl err
         | Inr q \<Rightarrow>
             (case py_float py (row ! 6) of
                Inl err \<Rightarrow> Inl err
              | Inr t \<Rightarrow>
                  StoredOrder_new (row ! 0) (row ! 1) (row ! 2) (PyInt q) (row ! 4) (row ! 5)
                    (PyFloat t))))"

text \<open>
  What a call reads from its surroundings: the 32 hexadecimal digits of a fresh
  \<open>uuid4\<close>, today's date as \<open>YYYY-MM-DD\<close>, and whether appending to the ledger file
  goes through.
\<close>

record env =
  uuid_hex :: string
  today :: string
  append_ok :: bool

definition from_order ::
  "pybuiltins \<Rightarrow> env \<Rightarrow> order \<Rightarrow> product \<Rightarrow> string option \<Rightarrow> error + stored_order" where
  "from_order py e ord p oid_opt =
     (let oid = (case oid_opt of None \<Rightarrow> ''ORD'' @ upper (take 6 (uuid_hex e)) | Some i \<Rightarrow> i)
      in case float_mul py (price p) (int_of (order_quantity ord)) of
           None \<Rightarrow> Inl (OverflowError ''int too large to convert to float'')
         | Some total_v \<Rightarrow>
             StoredOrder_new (PyStr oid) (PyStr (order_product_id ord))
               (if truthy (order_product_name ord) then order_product_name ord
                else PyStr (name p))
               (order_quantity ord) (PyStr (order_delivery_address ord)) (PyStr (today e))
               (PyFloat total_v))"

section \<open>Order processor (order_processor.py)\<close>

text \<open>
  The processor's state: the product table \<open>self.products\<close>, a dict from product id to
  product kept in insertion order, and the ledger, the rows of the orders file below its
  header. A failed append leaves the ledger as it was.
\<close>

record processor =
  products :: "(string \<times> product) list"
  ledger :: "pyval list list"

definition get_similar_products ::
  "pybuiltins \<Rightarrow> (string \<times> product) list \<Rightarrow> string \<Rightarrow> string list" where
  "get_similar_products py ps pid =
     (let product_id_lower = lower py pid
      in map (\<lambda>(k, p). k @ '' ('' @ name p @ '')'')
           (filter (\<lambda>(k, p). py_in product_id_lower (lower py k)
                              \<or> py_in product_id_lower (lower py (name p))
                              \<or> list_ex (\<lambda>word. py_in word (lower py (name p)))
                                   (py_split product_id_lower)) ps))"

definition get_category_alternatives ::
  "(string \<times> product) list \<Rightarrow> string \<Rightarrow> string \<Rightarrow> string list" where
  "get_category_alternatives ps cat exclude_product_id =
     map (\<lambda>(k, p). k @ '' ('' @ name p @ '')'')
       (filter (\<lambda>(k, p). category p = cat \<and> k \<noteq> exclude_product_id \<and> stock_quantity p > 0) ps)"

text \<open>
  \<open>validate_product_availability\<close>, on the product id and the quantity of a validated
  order (a string, and an \<open>int\<close> or \<open>bool\<close>).
\<close>

definition validate_product_availability ::
  "pybuiltins \<Rightarrow> (string \<times> product) list \<Rightarrow> string \<Rightarrow> pyval
     \<Rightarrow> bool \<times> string \<times> product option" where
  "validate_product_availability py ps pid quantity =
     (case map_of ps pid of
        None \<Rightarrow>
          (let available_products = get_similar_products py ps pid;
               message = ''Product '' @ pid @ '' not found.''
           in (False,
               (if available_products \<noteq> []
                then message @ '' Did you mean one of these: ''
                       @ join '', '' (take 5 available_products) @ ''?''
                else message),
               None))
      | Some p \<Rightarrow>
          if \<not> is_in_stock p (int_of quantity) then
            (let message = ''Insufficient stock for '' @ name p @ ''. Available: ''
                             @ str_int (stock_quantity p) @ '', Requested: ''
                             @ py_str py quantity
             in (False,
                 (if stock_quantity p > 0
                  then message @ ''. You can order up to '' @ str_int (stock_quantity p) @ '' units.''
                  else (let alternatives = get_category_alternatives ps (category p) pid
                        in if alternatives \<noteq> []
                           then message @ '' Consider these alternatives: ''
                                  @ join '', '' (take 3 alternatives)
                           else message)),
                 Some p))
          else (True, ''Product available'', Some p))"

text \<open>The result dict of \<open>process_order\<close>; an absent key or \<open>None\<close> is \<open>None\<close>.\<close>

record order_details =
  details_product_name :: string
  details_quantity :: pyval
  details_unit_price :: real
  details_total_price :: pyval
  details_delivery_address :: string
  details_order_date :: pyval

record order_result =
  success :: bool
  message :: string
  result_order_id :: "string option"
  result_total_price :: "pyval option"
  result_order_details :: "order_details option"

definition failure_result :: "string \<Rightarrow> order_result" where
  "failure_result m =
     \<lparr>success = False, message = m, result_order_id = None, result_total_price = None,
      result_order_details = None\<rparr>"

text \<open>The dict returned for a placed order.\<close>

definition success_result :: "product \<Rightarrow> stored_order \<Rightarrow> pyval \<Rightarrow> pyval \<Rightarrow> order_result" where
  "success_result p stored quantity delivery_address =
     \<lparr>success = True,
      message = ''Order '' @ order_id stored @ '' placed successfully for '' @ name p,
      result_order_id = Some (order_id stored),
      result_total_price = Some (total_price stored),
      result_order_details = Some
        \<lparr>details_product_name = name p,
         details_quantity = quantity,
         details_unit_price = price p,
         details_total_price = total_price stored,
         details_delivery_address = str_of delivery_address,
         details_order_date = order_date stored\<rparr>\<rparr>"

definition save_order_to_csv ::
  "pybuiltins \<Rightarrow> env \<Rightarrow> processor \<Rightarrow> stored_order \<Rightarrow> bool \<times> processor" where
  "save_order_to_csv py e st x =
     (if append_ok e then (True, st\<lparr>ledger := ledger st @ [to_csv_row py x]\<rparr>)
      else (False, st))"

text \<open>
  The test \<open>product_name and product_name.lower() != product.name.lower()\<close>; a truthy
  value that is not a string has no \<open>lower\<close> method.
\<close>

definition name_mismatch :: "pybuiltins \<Rightarrow> pyval \<Rightarrow> product \<Rightarrow> error + bool" where
  "name_mismatch py product_name p =
     (if \<not> truthy product_name then Inr False
      else (case product_name of
              PyStr s \<Rightarrow> Inr (lower py s \<noteq> lower py (name p))
            | v \<Rightarrow> Inl (AttributeError (sq @ type_name v @ sq @ '' object has no attribute ''
                                        @ sq @ ''lower'' @ sq))))"

text \<open>The body of the \<open>try\<close> block: \<open>Inl e\<close> when it raises \<open>e\<close>.\<close>

definition process_order_body ::
  "pybuiltins \<Rightarrow> env \<Rightarrow> processor \<Rightarrow> pyval \<Rightarrow> pyval \<Rightarrow> pyval \<Rightarrow> pyval
     \<Rightarrow> error + (order_result \<times> processor)" where
  "process_order_body py e st pid quantity delivery_address product_name =
     (case Order_new pid quantity delivery_address product_name of
        Inl err \<Rightarrow> Inl err
      | Inr ord \<Rightarrow>
          (case validate_product_availability py (products st) (str_of pid) quantity of
             (is_valid, msg, product_opt) \<Rightarrow>
               if \<not> is_valid then Inr (failure_result msg, st)
               else
                 (case product_opt of
                    None \<Rightarrow> Inl (AttributeError (sq @ ''NoneType'' @ sq @ '' object has no attribute ''
                                                @ sq @ ''name'' @ sq))
                  | Some p \<Rightarrow>
                      (case name_mismatch py product_name p of
                         Inl err \<Rightarrow> Inl err
                       | Inr True \<Rightarrow>
                           Inr (failure_result
                                  (''Product name mismatch. Expected '' @ sq @ name p
                                     @ sq @ '' for product ID '' @ str_of pid), st)
                       | Inr False \<Rightarrow>
                           (case from_order py e ord p None of
                              Inl err \<Rightarrow> Inl err
                            | Inr stored \<Rightarrow>
                                (case save_order_to_csv py e st stored of
                                   (True, st') \<Rightarrow>
                                     Inr (success_result p stored quantity delivery_address,
                                          st'\<lparr>products :=
                                                AList.update (str_of pid)
                                                  (p\<lparr>stock_quantity :=
                                                       stock_quantity p - int_of quantity\<rparr>)
                                                  (products st')\<rparr>)
                                 | (False, st') \<Rightarrow>
                                     Inr (failure_result ''Failed to save order. Please try again.'',
                                          st')))))))"

text \<open>
  \<open>process_order\<close>: the \<open>try\<close> block with its two handlers. Nothing is raised after
  the ledger append, so a handler always sees the state the call started with.
\<close>

definition process_order ::
  "pybuiltins \<Rightarrow> env \<Rightarrow> processor \<Rightarrow> pyval \<Rightarrow> pyval \<Rightarrow> pyval \<Rightarrow> pyval
     \<Rightarrow> order_result \<times> processor" where
  "process_order py e st pid quantity delivery_address product_name =
     (case process_order_body py e st pid quantity delivery_address product_name of
        Inr r \<Rightarrow> r
      | Inl (ValueError m) \<Rightarrow> (failure_result (''Invalid order data: '' @ m), st)
      | Inl err \<Rightarrow>
          (failure_result
             ''An unexpected error occurred while processing your order. Please try again.'', st))"

text \<open>
  The table \<open>_load_catalog\<close> builds: every product is stored under its own id and has
  passed \<open>Product.__post_init__\<close>.
\<close>

definition catalog_ok :: "(string \<times> product) list \<Rightarrow> bool" where
  "catalog_ok ps = list_all (\<lambda>(k, p). product_id p = k \<and> Product_valid p) ps"

section \<open>LLM service client (sarvam_llm_service.py)\<close>

text \<open>
  What one call of \<open>session.post\<close> does: it raises, or it returns a response with a
  status code, a text and the outcome of \<open>response.json()\<close> (the parsed body, or the
  exception it raises on a body that is not JSON). The responses of a run are a function
  from the 0-based attempt number.
\<close>

datatype 'j outcome = Raised error | Response nat string "error + 'j"

text \<open>What the caller observes of a run: each request sent and each sleep, in order.\<close>

datatype event = Post nat | Sleep nat

text \<open>How one iteration of the \<open>for\<close> loop ends.\<close>

datatype 'j action =
    Return 'j
  | Raise error
  | WaitContinue "error option"
  | Continue "error option"
  | Break "error option"

text \<open>
  The \<open>except\<close> clauses in the order they are written: \<open>Timeout\<close>,
  \<open>ConnectionError\<close>, \<open>RequestException\<close>, \<open>json.JSONDecodeError\<close>. The first clause
  the exception is an instance of handles it. \<open>requests.exceptions.JSONDecodeError\<close>,
  which \<open>response.json()\<close> raises since requests 2.27, derives from
  \<open>RequestException\<close> (through \<open>InvalidJSONError\<close>) as well as from
  \<open>json.JSONDecodeError\<close>, so the third clause handles it. An exception no clause
  names leaves the method.
\<close>

definition handle_exception :: "int \<Rightarrow> nat \<Rightarrow> error \<Rightarrow> 'j action" where
  "handle_exception max_retries attempt err =
     (case err of
        Timeout m \<Rightarrow>
          if int attempt < max_retries then WaitContinue (Some (Exception ''Request timeout''))
          else Continue (Some (Exception ''Request timeout''))
      | ConnectionError m \<Rightarrow>
          if int attempt < max_retries then WaitContinue (Some (Exception ''Connection error''))
          else Continue (Some (Exception ''Connection error''))
      | RequestException m \<Rightarrow>
          if int attempt < max_retries then WaitContinue (Some err) else Continue (Some err)
      | RequestsJSONDecodeError m \<Rightarrow>
          if int attempt < max_retries then WaitContinue (Some err) else Continue (Some err)
      | JSONDecodeError m \<Rightarrow> Break (Some err)
      | _ \<Rightarrow> Raise err)"

definition attempt_action :: "int \<Rightarrow> nat \<Rightarrow> error option \<Rightarrow> 'j outcome \<Rightarrow> 'j action" where
  "attempt_action max_retries attempt last_exception out =
     (case out of
        Raised err \<Rightarrow> handle_exception max_retries attempt err
      | Response status_code text body \<Rightarrow>
          if status_code = 200 then
            (case body of Inr j \<Rightarrow> Return j | Inl err \<Rightarrow> handle_exception max_retries attempt err)
          else if status_code = 401 then
            Raise (Exception ''Authentication failed. Please check your SARVAM_API_KEY.'')
          else if status_code = 429 then
            (if int attempt < max_retries then WaitContinue last_exception
             else Raise (Exception ''Rate limit exceeded after all retries''))
          else if 500 \<le> status_code \<and> status_code < 600 then
            (if int attempt < max_retries then WaitContinue last_exception
             else Raise (Exception (''Server error '' @ str_nat status_code @ '' after all retries'')))
          else
            Raise (Exception (''API request failed with status '' @ str_nat status_code
                                @ '': '' @ text)))"

text \<open>
  The loop over \<open>range(max_retries + 1)\<close>, with \<open>_wait_with_backoff\<close> sleeping
  \<open>2 ** attempt\<close> seconds. The empty list is the code after the loop.
\<close>

fun request_loop ::
  "int \<Rightarrow> (nat \<Rightarrow> 'j outcome) \<Rightarrow> error option \<Rightarrow> nat list \<Rightarrow> (error + 'j) \<times> event list" where
  "request_loop max_retries resp last_exception [] =
     (Inl (case last_exception of
             Some err \<Rightarrow> err
           | None \<Rightarrow> Exception ''API request failed after all retries''), [])"
| "request_loop max_retries resp last_exception (attempt # rest) =
     (case attempt_action max_retries attempt last_exception (resp attempt) of
        Return j \<Rightarrow> (Inr j, [Post attempt])
      | Raise err \<Rightarrow> (Inl err, [Post attempt])
      | WaitContinue le \<Rightarrow>
          (case request_loop max_retries resp le rest of
             (r, evs) \<Rightarrow> (r, Post attempt # Sleep (2 ^ attempt) # evs))
      | Continue le \<Rightarrow>
          (case request_loop max_retries resp le rest of
             (r, evs) \<Rightarrow> (r, Post attempt # evs))
      | Break le \<Rightarrow>
          (case request_loop max_retries resp le [] of
             (r, evs) \<Rightarrow> (r, Post attempt # evs)))"

definition make_request_with_retry ::
  "int \<Rightarrow> (nat \<Rightarrow> 'j outcome) \<Rightarrow> (error + 'j) \<times> event list" where
  "make_request_with_retry max_retries resp =
     request_loop max_retries resp None [0 ..< nat (max_retries + 1)]"

fun is_post :: "event \<Rightarrow> bool" where
  "is_post (Post n) = True"
| "is_post (Sleep n) = False"

definition attempts :: "event list \<Rightarrow> nat" where
  "attempts evs = length (filter is_post evs)"

definition waits :: "event list \<Rightarrow> nat list" where
  "waits evs = concat (map (\<lambda>ev. case ev of Sleep n \<Rightarrow> [n] | Post n \<Rightarrow> []) evs)"

section \<open>RAG engine (rag_engine.py)\<close>













section \<open>Agent tools (llamaindex_agent.py)\<close>

text \<open>
  The function registered as the tool \<open>process_order\<close>. What it returns is either a
  string or the processor's result dict. The order processor is the object handed to the
  agent: \<open>op\<close> is its \<open>process_order\<close> method on a state \<open>'s\<close>, with \<open>Inl\<close> for
  an exception that escapes it.
\<close>

datatype tool_output = Text string | ResultRecord order_result

definition process_order_tool ::
  "('s \<Rightarrow> pyval \<Rightarrow> pyval \<Rightarrow> pyval \<Rightarrow> pyval \<Rightarrow> (error + order_result) \<times> 's)
     \<Rightarrow> 's \<Rightarrow> pyval \<Rightarrow> pyval \<Rightarrow> pyval \<Rightarrow> pyval \<Rightarrow> tool_output \<times> 's" where
  "process_order_tool op st pid quantity delivery_address product_name =
     (case op st pid quantity delivery_address product_name of
        (Inr result, st') \<Rightarrow> (ResultRecord result, st')
      | (Inl err, st') \<Rightarrow>
          (Text (''I'' @ sq @ ''m sorry, I encountered an error while placing your order: ''
                   @ error_str err), st'))"

text \<open>The order processor of this repository as that object.\<close>

definition order_processor_method ::
  "pybuiltins \<Rightarrow> env \<Rightarrow> processor \<Rightarrow> pyval \<Rightarrow> pyval \<Rightarrow> pyval \<Rightarrow> pyval
     \<Rightarrow> (error + order_result) \<times> processor" where
  "order_processor_method py e st pid quantity delivery_address product_name =
     (case process_order py e st pid quantity delivery_address product_name of
        (r, st') \<Rightarrow> (Inr r, st'))"

text \<open>An order processor whose \<open>process_order\<close> raises.\<close>

definition failing_processor_method ::
  "processor \<Rightarrow> pyval \<Rightarrow> pyval \<Rightarrow> pyval \<Rightarrow> pyval \<Rightarrow> (error + order_result) \<times> processor" where
  "failing_processor_method st pid quantity delivery_address product_name =
     (Inl (Exception ''disk full''), st)"

section \<open>Network front-end (chat_interface.py)\<close>

text \<open>
  The handler of \<open>POST /respond\<close>. \<open>init\<close> is what constructing a \<open>ChatInterface\<close>
  does (\<open>Some e\<close> when a component fails to initialise) and \<open>agent_chat\<close> is the
  orchestrator's \<open>chat\<close>, returning the content of its response. The trace lists the
  calls made into the assistant.
\<close>

datatype payload = PySet "string list" | PyDict "(string \<times> string option) list"

datatype api_event = ConstructChatInterface | AgentChat string

definition agentic_endpoint :: "(string \<Rightarrow> error + string) \<Rightarrow> string \<Rightarrow> string option" where
  "agentic_endpoint agent_chat user_input =
     (case agent_chat user_input of Inr content \<Rightarrow> Some content | Inl err \<Rightarrow> None)"

definition response_endpoint ::
  "error option \<Rightarrow> (string \<Rightarrow> error + string) \<Rightarrow> string \<Rightarrow> string
     \<Rightarrow> (error + payload) \<times> api_event list" where
  "response_endpoint init agent_chat password query =
     (if password \<noteq> ''abcd1234'' then (Inr (PySet [''result: Incorrect Password'']), [])
      else
        (case init of
           Some err \<Rightarrow>
             (Inl (Exception (''Chat interface initialization failed: '' @ error_str err)),
              [ConstructChatInterface])
         | None \<Rightarrow>
             (Inr (PyDict [(''result'', agentic_endpoint agent_chat query)]),
              [ConstructChatInterface, AgentChat query])))"

section \<open>Properties of the string helpers\<close>

lemma digit_cases: "d < 10 \<Longrightarrow> d = 0 \<or> d = 1 \<or> d = 2 \<or> d = 3 \<or> d = 4 \<or> d = 5 \<or> d = 6 \<or> d = 7 \<or> d = 8 \<or> d = (9::nat)"
  by arith

lemma digit_char_props:
  assumes "d < 10"
  shows "is_digit (digit_char d)" and "digit_val (digit_char d) = d"
    and "digit_char d \<noteq> CHR ''_''" and "\<not> is_space (digit_char d)"
    and "digit_char d \<noteq> CHR ''-''" and "digit_char d \<noteq> CHR ''+''"
  using digit_cases [OF assms]
  by (auto simp: digit_char_def is_digit_def digit_val_def is_space_def)

lemma str_nat_small: "n < 10 \<Longrightarrow> str_nat n = [digit_char n]"
  by (subst str_nat.simps) simp

lemma str_nat_big: "\<not> n < 10 \<Longrightarrow> str_nat n = str_nat (n div 10) @ [digit_char (n mod 10)]"
  by (subst str_nat.simps) simp

lemma str_nat_digits: "c \<in> set (str_nat n) \<Longrightarrow> is_digit c \<and> c \<noteq> CHR ''_'' \<and> \<not> is_space c"
proof (induction n arbitrary: c rule: str_nat.induct)
  case (1 n)
  show ?case
  proof (cases "n < 10")
    case True
    with "1.prems" show ?thesis by (simp add: str_nat_small digit_char_props)
  next
    case False
    then have "c \<in> set (str_nat (n div 10)) \<or> c = digit_char (n mod 10)"
      using "1.prems" by (auto simp: str_nat_big)
    then show ?thesis
      using "1.IH" [OF False] by (auto simp: digit_char_props)
  qed
qed

lemma str_nat_nonempty: "str_nat n \<noteq> []"
  by (subst str_nat.simps) simp

lemma digits_ok_all: "s \<noteq> [] \<Longrightarrow> \<forall>c\<in>set s. is_digit c \<and> c \<noteq> CHR ''_'' \<Longrightarrow> digits_ok s"
  by (induction s rule: digits_ok.induct) auto

lemma nat_of_digits_snoc:
  "c \<noteq> CHR ''_'' \<Longrightarrow> nat_of_digits (s @ [c]) = 10 * nat_of_digits s + digit_val c"
  by (simp add: nat_of_digits_def)

lemma nat_of_digits_str_nat: "nat_of_digits (str_nat n) = n"
proof (induction n rule: str_nat.induct)
  case (1 n)
  show ?case
  proof (cases "n < 10")
    case True
    then show ?thesis by (simp add: str_nat_small nat_of_digits_def digit_char_props)
  next
    case False
    have "nat_of_digits (str_nat n) = nat_of_digits (str_nat (n div 10) @ [digit_char (n mod 10)])"
      using False by (simp add: str_nat_big)
    also have "\<dots> = 10 * nat_of_digits (str_nat (n div 10)) + digit_val (digit_char (n mod 10))"
      by (rule nat_of_digits_snoc) (simp add: digit_char_props)
    also have "\<dots> = 10 * (n div 10) + n mod 10"
      using "1.IH" [OF False] by (simp add: digit_char_props)
    finally show ?thesis by simp
  qed
qed

lemma strip_no_space: "\<forall>c\<in>set s. \<not> is_space c \<Longrightarrow> strip s = s"
proof -
  assume a: "\<forall>c\<in>set s. \<not> is_space c"
  have "dropWhile is_space s = s" using a by (cases s) auto
  moreover have "dropWhile is_space (rev s) = rev s" using a by (cases "rev s") (auto simp: rev_eq_Cons_iff)
  ultimately show ?thesis by (simp add: strip_def)
qed

lemma int_of_str_str_int: "int_of_str (str_int i) = Some i"
proof (cases "i < 0")
  case True
  let ?d = "str_nat (nat (- i))"
  have ns: "\<forall>c\<in>set (CHR ''-'' # ?d). \<not> is_space c"
    using str_nat_digits by (auto simp: is_space_def)
  have ok: "digits_ok ?d"
    using str_nat_digits str_nat_nonempty by (intro digits_ok_all) auto
  show ?thesis
    using True ok by (simp add: int_of_str_def str_int_def strip_no_space [OF ns] nat_of_digits_str_nat)
next
  case False
  let ?d = "str_nat (nat i)"
  have ns: "\<forall>c\<in>set ?d. \<not> is_space c"
    using str_nat_digits by auto
  have ok: "digits_ok ?d"
    using str_nat_digits str_nat_nonempty by (intro digits_ok_all) auto
  obtain c cs where d: "?d = c # cs"
    using str_nat_nonempty [of "nat i"] by (cases ?d) auto
  have "is_digit c" using str_nat_digits [of c "nat i"] d by simp
  then have c: "c \<noteq> CHR ''-''" "c \<noteq> CHR ''+''" by (auto simp: is_digit_def)
  have "strip (c # cs) = c # cs" using strip_no_space [OF ns] d by simp
  then have "int_of_str ?d = Some (int (nat_of_digits ?d))"
    using ok c d by (simp add: int_of_str_def)
  then show ?thesis
    using False by (simp add: str_int_def nat_of_digits_str_nat)
qed

section \<open>Properties of the data model\<close>

lemma nonempty_str_iff: "(truthy v \<and> isinstance_str v) = (\<exists>a. v = PyStr a \<and> a \<noteq> [])"
  by (cases v) auto

lemma Product_post_init_None:
  "(Product_post_init pid nm d pr st cat = None) =
     ((truthy pid \<and> isinstance_str pid) \<and> (truthy nm \<and> isinstance_str nm) \<and>
      isinstance_int_float pr \<and> 0 \<le> num_of pr \<and> isinstance_int st \<and> 0 \<le> int_of st \<and>
      (truthy cat \<and> isinstance_str cat))"
  by (auto simp: Product_post_init_def)

lemma Product_post_init_ValueError:
  "Product_post_init pid nm d pr st cat = Some e \<Longrightarrow> \<exists>m. e = ValueError m"
  by (auto simp: Product_post_init_def split: if_splits)

text \<open>
  Claim C3, as the code has it. Construction succeeds exactly when \<open>product_id\<close>,
  \<open>name\<close> and \<open>category\<close> are non-empty strings, \<open>price\<close> is a non-negative
  number and \<open>stock_quantity\<close> is a non-negative integer (an instance of \<open>int\<close>, which
  a \<open>bool\<close> is); the description plays no part. Every failure is a \<open>ValueError\<close>, and
  on a constructed product \<open>is_in_stock(n)\<close> holds iff \<open>stock_quantity >= n\<close>.
\<close>

theorem Product_construction:
  "(Product_post_init pid nm d pr st cat = None \<longleftrightarrow>
      (\<exists>a. pid = PyStr a \<and> a \<noteq> []) \<and> (\<exists>b. nm = PyStr b \<and> b \<noteq> []) \<and>
      isinstance_int_float pr \<and> 0 \<le> num_of pr \<and> isinstance_int st \<and> 0 \<le> int_of st \<and>
      (\<exists>c. cat = PyStr c \<and> c \<noteq> []))
   \<and> (Product_post_init pid nm d pr st cat \<noteq> None \<longrightarrow>
        (\<exists>m. Product_post_init pid nm d pr st cat = Some (ValueError m)))
   \<and> (Product_new pid nm d pr st cat = Inr p \<longrightarrow>
        Product_post_init pid nm d pr st cat = None \<and> description p = d \<and>
        stock_quantity p = int_of st \<and> (is_in_stock p n \<longleftrightarrow> int_of st \<ge> n))"
proof (intro conjI impI)
  show "Product_post_init pid nm d pr st cat = None \<longleftrightarrow>
      (\<exists>a. pid = PyStr a \<and> a \<noteq> []) \<and> (\<exists>b. nm = PyStr b \<and> b \<noteq> []) \<and>
      isinstance_int_float pr \<and> 0 \<le> num_of pr \<and> isinstance_int st \<and> 0 \<le> int_of st \<and>
      (\<exists>c. cat = PyStr c \<and> c \<noteq> [])"
    unfolding Product_post_init_None nonempty_str_iff by (rule refl)
next
  assume "Product_post_init pid nm d pr st cat \<noteq> None"
  then obtain e where "Product_post_init pid nm d pr st cat = Some e" by auto
  then show "\<exists>m. Product_post_init pid nm d pr st cat = Some (ValueError m)"
    using Product_post_init_ValueError by blast
next
  assume a: "Product_new pid nm d pr st cat = Inr p"
  then show "Product_post_init pid nm d pr st cat = None"
    by (auto simp: Product_new_def split: option.splits)
  from a show "description p = d"
    by (auto simp: Product_new_def split: option.splits)
  from a show "stock_quantity p = int_of st"
    by (auto simp: Product_new_def split: option.splits)
  from a show "is_in_stock p n \<longleftrightarrow> int_of st \<ge> n"
    by (auto simp: Product_new_def is_in_stock_def split: option.splits)
qed

text \<open>The theorem at a lamp priced 25 with 3 in stock, and at the same lamp priced -1.\<close>

theorem Product_construction_witness:
  "Product_post_init (PyStr ''P001'') (PyStr ''Desk Lamp'') (PyStr ''A lamp'') (PyFloat 25) (PyInt 3)
      (PyStr ''Lighting'') = None
   \<and> Product_post_init (PyStr ''P001'') (PyStr ''Desk Lamp'') (PyStr ''A lamp'') (PyFloat (- 1)) (PyInt 3)
      (PyStr ''Lighting'') = Some (ValueError ''Price must be a non-negative number'')
   \<and> Product_new (PyStr ''P001'') (PyStr ''Desk Lamp'') (PyStr ''A lamp'') (PyFloat 25) (PyInt 3)
        (PyStr ''Lighting'')
      = Inr \<lparr>product_id = ''P001'', name = ''Desk Lamp'', description = PyStr ''A lamp'', price = 25,
              stock_quantity = 3, category = ''Lighting''\<rparr>
   \<and> is_in_stock \<lparr>product_id = ''P001'', name = ''Desk Lamp'', description = PyStr ''A lamp'',
              price = 25, stock_quantity = 3, category = ''Lighting''\<rparr> 2
   \<and> \<not> is_in_stock \<lparr>product_id = ''P001'', name = ''Desk Lamp'', description = PyStr ''A lamp'',
              price = 25, stock_quantity = 3, category = ''Lighting''\<rparr> 4"
  using Product_construction [of "PyStr ''P001''" "PyStr ''Desk Lamp''" "PyStr ''A lamp''" "PyFloat 25"
      "PyInt 3" "PyStr ''Lighting''"
      "\<lparr>product_id = ''P001'', name = ''Desk Lamp'', description = PyStr ''A lamp'', price = 25,
              stock_quantity = 3, category = ''Lighting''\<rparr>" 2]
    Product_construction [of "PyStr ''P001''" "PyStr ''Desk Lamp''" "PyStr ''A lamp''" "PyFloat (- 1)"
      "PyInt 3" "PyStr ''Lighting''"
      "\<lparr>product_id = ''P001'', name = ''Desk Lamp'', description = PyStr ''A lamp'', price = 25,
              stock_quantity = 3, category = ''Lighting''\<rparr>" 4]
  by (simp add: Product_post_init_def Product_new_def is_in_stock_def)

text \<open>
  Claim C3 as stated fails: a product with an empty description, or with a description
  that is not a string, is constructed.
\<close>

theorem Product_empty_description_counterexample:
  "Product_new (PyStr ''P001'') (PyStr ''Desk Lamp'') (PyStr []) (PyFloat 25) (PyInt 3)
       (PyStr ''Lighting'')
     = Inr \<lparr>product_id = ''P001'', name = ''Desk Lamp'', description = PyStr [], price = 25,
             stock_quantity = 3, category = ''Lighting''\<rparr>
   \<and> Product_new (PyStr ''P001'') (PyStr ''Desk Lamp'') (PyInt 7) (PyFloat 25) (PyInt 3)
       (PyStr ''Lighting'')
     = Inr \<lparr>product_id = ''P001'', name = ''Desk Lamp'', description = PyInt 7, price = 25,
             stock_quantity = 3, category = ''Lighting''\<rparr>"
  by (simp add: Product_post_init_def Product_new_def)

lemma StoredOrder_valid_iff:
  "StoredOrder_valid x \<longleftrightarrow>
     order_id x \<noteq> [] \<and> so_product_id x \<noteq> [] \<and> so_product_name x \<noteq> [] \<and>
     isinstance_int (so_quantity x) \<and> 0 < int_of (so_quantity x) \<and>
     so_delivery_address x \<noteq> [] \<and> isinstance_int_float (total_price x) \<and> 0 \<le> num_of (total_price x)"
  by (auto simp: StoredOrder_valid_def StoredOrder_post_init_def)

lemma to_csv_row_nth:
  "to_csv_row py x ! 0 = PyStr (order_id x)" "to_csv_row py x ! Suc 0 = PyStr (so_product_id x)"
  "to_csv_row py x ! 2 = PyStr (so_product_name x)"
  "to_csv_row py x ! 3 = PyStr (py_str py (so_quantity x))"
  "to_csv_row py x ! 4 = PyStr (so_delivery_address x)" "to_csv_row py x ! 5 = order_date x"
  "to_csv_row py x ! 6 = PyStr (py_str py (total_price x))" "length (to_csv_row py x) = 7"
  by (simp_all add: to_csv_row_def)

text \<open>
  Claim C4, as the code has it. Let \<open>x\<close> be a stored order that passes its validation,
  whose quantity is an \<open>int\<close> that is not a \<open>bool\<close>, and whose total price \<open>t\<close> is a
  float or an \<open>int\<close> that \<open>float(str(t))\<close> gives back. Then
  \<open>from_csv_row(x.to_csv_row())\<close> is \<open>x\<close> with the total price as a float of the same
  value, which Python compares equal to \<open>x\<close>, and is \<open>x\<close> itself when the total price
  is a float. On every row whose length is not 7, \<open>from_csv_row\<close> fails with a
  \<open>ValueError\<close>.
\<close>

theorem csv_row_roundtrip:
  "(StoredOrder_valid x \<and> so_quantity x = PyInt q
      \<and> (total_price x = PyFloat t \<or> total_price x = PyInt n \<and> t = of_int n)
      \<and> float_of_str py (py_str py (total_price x)) = Some t \<longrightarrow>
      from_csv_row py (to_csv_row py x) = Inr (x\<lparr>total_price := PyFloat t\<rparr>)
      \<and> (total_price x = PyFloat t \<longrightarrow> from_csv_row py (to_csv_row py x) = Inr x))
   \<and> (length row \<noteq> 7 \<longrightarrow>
        from_csv_row py row = Inl (ValueError ''CSV row must have exactly 7 columns''))"
proof (intro conjI impI)
  assume a: "StoredOrder_valid x \<and> so_quantity x = PyInt q
      \<and> (total_price x = PyFloat t \<or> total_price x = PyInt n \<and> t = of_int n)
      \<and> float_of_str py (py_str py (total_price x)) = Some t"
  then have v: "order_id x \<noteq> []" "so_product_id x \<noteq> []" "so_product_name x \<noteq> []" "0 < q"
      "so_delivery_address x \<noteq> []" "0 \<le> t"
    by (auto simp: StoredOrder_valid_iff)
  have "StoredOrder_new (PyStr (order_id x)) (PyStr (so_product_id x)) (PyStr (so_product_name x))
          (PyInt q) (PyStr (so_delivery_address x)) (order_date x) (PyFloat t)
        = Inr (x\<lparr>total_price := PyFloat t\<rparr>)"
    using v a by (simp add: StoredOrder_new_def StoredOrder_post_init_def)
  then show r: "from_csv_row py (to_csv_row py x) = Inr (x\<lparr>total_price := PyFloat t\<rparr>)"
    using a by (simp add: from_csv_row_def to_csv_row_nth int_of_str_str_int)
  show "from_csv_row py (to_csv_row py x) = Inr x" if "total_price x = PyFloat t"
    using r that by (metis stored_order.surjective stored_order.update_convs(7))
next
  assume "length row \<noteq> 7"
  then show "from_csv_row py row = Inl (ValueError ''CSV row must have exactly 7 columns'')"
    by (simp add: from_csv_row_def)
qed

lemma simple_float_examples:
  "float_str simple_builtins 75 = ''75.0''"
  "float_of_str simple_builtins ''75.0'' = Some 75"
  "float_of_str simple_builtins ''75'' = Some 75"
  "float_str simple_builtins 25 = ''25.0''"
  "str_int 75 = ''75''" "str_int 3 = ''3''"
  "int_of_str ''True'' = None"
  "repr_str simple_builtins ''True'' = sq @ ''True'' @ sq"
  by (simp_all add: simple_builtins_def simple_float_of_str_def int_of_str_def strip_def is_space_def
        digits_ok.simps is_digit_def nat_of_digits_def digit_val_def str_int_def str_nat_small
        str_nat_big digit_char_def)

text \<open>
  The theorem at an order of three lamps with the total 75 as a float and as an \<open>int\<close>,
  and at a row of two columns.
\<close>

theorem csv_row_roundtrip_witness:
  "StoredOrder_valid \<lparr>order_id = ''ORDA1B2C3'', so_product_id = ''P001'', so_product_name = ''Desk Lamp'',
       so_quantity = PyInt 3, so_delivery_address = ''12 Main St'', order_date = PyStr ''2024-05-01'',
       total_price = PyFloat 75\<rparr>
   \<and> from_csv_row simple_builtins
        [PyStr ''ORDA1B2C3'', PyStr ''P001'', PyStr ''Desk Lamp'', PyStr ''3'', PyStr ''12 Main St'',
         PyStr ''2024-05-01'', PyStr ''75.0'']
      = Inr \<lparr>order_id = ''ORDA1B2C3'', so_product_id = ''P001'', so_product_name = ''Desk Lamp'',
       so_quantity = PyInt 3, so_delivery_address = ''12 Main St'', order_date = PyStr ''2024-05-01'',
       total_price = PyFloat 75\<rparr>
   \<and> from_csv_row simple_builtins
        (to_csv_row simple_builtins
           \<lparr>order_id = ''ORDA1B2C3'', so_product_id = ''P001'', so_product_name = ''Desk Lamp'',
            so_quantity = PyInt 3, so_delivery_address = ''12 Main St'',
            order_date = PyStr ''2024-05-01'', total_price = PyInt 75\<rparr>)
      = Inr \<lparr>order_id = ''ORDA1B2C3'', so_product_id = ''P001'', so_product_name = ''Desk Lamp'',
       so_quantity = PyInt 3, so_delivery_address = ''12 Main St'', order_date = PyStr ''2024-05-01'',
       total_price = PyFloat 75\<rparr>
   \<and> from_csv_row simple_builtins [PyStr ''ORDA1B2C3'', PyStr ''P001'']
      = Inl (ValueError ''CSV row must have exactly 7 columns'')"
  using csv_row_roundtrip [of "\<lparr>order_id = ''ORDA1B2C3'', so_product_id = ''P001'',
       so_product_name = ''Desk Lamp'', so_quantity = PyInt 3, so_delivery_address = ''12 Main St'',
       order_date = PyStr ''2024-05-01'', total_price = PyFloat 75\<rparr>"
       3 75 75 simple_builtins "[PyStr ''ORDA1B2C3'', PyStr ''P001'']"]
    csv_row_roundtrip [of "\<lparr>order_id = ''ORDA1B2C3'', so_product_id = ''P001'',
       so_product_name = ''Desk Lamp'', so_quantity = PyInt 3, so_delivery_address = ''12 Main St'',
       order_date = PyStr ''2024-05-01'', total_price = PyInt 75\<rparr>"
       3 75 75 simple_builtins "[PyStr ''ORDA1B2C3'', PyStr ''P001'']"]
  by (simp add: StoredOrder_valid_iff to_csv_row_def simple_float_examples)

text \<open>
  Claim C4 as stated fails: a stored order with the quantity \<open>True\<close> is constructed,
  \<open>to_csv_row\<close> writes the text \<open>True\<close> in the quantity column, and \<open>from_csv_row\<close>
  on that row fails with the \<open>ValueError\<close> of \<open>int('True')\<close>.
\<close>

theorem csv_row_bool_quantity_counterexample:
  "StoredOrder_new (PyStr ''ORDA1B2C3'') (PyStr ''P001'') (PyStr ''Desk Lamp'') (PyBool True)
       (PyStr ''12 Main St'') (PyStr ''2024-05-01'') (PyFloat 25)
     = Inr \<lparr>order_id = ''ORDA1B2C3'', so_product_id = ''P001'', so_product_name = ''Desk Lamp'',
            so_quantity = PyBool True, so_delivery_address = ''12 Main St'',
            order_date = PyStr ''2024-05-01'', total_price = PyFloat 25\<rparr>
   \<and> to_csv_row simple_builtins
        \<lparr>order_id = ''ORDA1B2C3'', so_product_id = ''P001'', so_product_name = ''Desk Lamp'',
         so_quantity = PyBool True, so_delivery_address = ''12 Main St'',
         order_date = PyStr ''2024-05-01'', total_price = PyFloat 25\<rparr>
     = [PyStr ''ORDA1B2C3'', PyStr ''P001'', PyStr ''Desk Lamp'', PyStr ''True'', PyStr ''12 Main St'',
        PyStr ''2024-05-01'', PyStr ''25.0'']
   \<and> from_csv_row simple_builtins
        (to_csv_row simple_builtins
           \<lparr>order_id = ''ORDA1B2C3'', so_product_id = ''P001'', so_product_name = ''Desk Lamp'',
            so_quantity = PyBool True, so_delivery_address = ''12 Main St'',
            order_date = PyStr ''2024-05-01'', total_price = PyFloat 25\<rparr>)
     = Inl (ValueError (''invalid literal for int() with base 10: '' @ sq @ ''True'' @ sq))"
  by (simp add: StoredOrder_new_def StoredOrder_post_init_def to_csv_row_def from_csv_row_def
        simple_float_examples)

section \<open>Properties of the order processor\<close>

lemma Order_new_Inr:
  "Order_new pid q a pn = Inr ord \<longleftrightarrow>
     (\<exists>s ad. pid = PyStr s \<and> s \<noteq> [] \<and> isinstance_int q \<and> 0 < int_of q \<and> a = PyStr ad
        \<and> ad \<noteq> [] \<and>
        ord = \<lparr>order_product_id = s, order_quantity = q, order_delivery_address = ad,
                order_product_name = pn\<rparr>)"
  by (cases pid; cases a) (auto simp: Order_new_def Order_post_init_def)

lemma validate_True:
  "validate_product_availability py ps k n = (True, m, po) \<longleftrightarrow>
     (\<exists>p. map_of ps k = Some p \<and> int_of n \<le> stock_quantity p \<and> m = ''Product available''
        \<and> po = Some p)"
  by (auto simp: validate_product_availability_def is_in_stock_def Let_def split: option.splits)

lemma validate_fst:
  "fst (validate_product_availability py ps k n)
     \<longleftrightarrow> (\<exists>p. map_of ps k = Some p \<and> int_of n \<le> stock_quantity p)"
  by (auto simp: validate_product_availability_def is_in_stock_def Let_def split: option.splits)

lemma catalog_ok_lookup:
  "catalog_ok ps \<Longrightarrow> map_of ps k = Some p \<Longrightarrow> product_id p = k \<and> Product_valid p"
  by (auto simp: catalog_ok_def list_all_iff dest!: map_of_SomeD)

lemma Product_valid_iff:
  "Product_valid p \<longleftrightarrow> product_id p \<noteq> [] \<and> name p \<noteq> [] \<and> 0 \<le> price p \<and> 0 \<le> stock_quantity p \<and> category p \<noteq> []"
  by (auto simp: Product_valid_def Product_post_init_def)

lemma name_mismatch_False:
  "name_mismatch py pn p = Inr False
     \<longleftrightarrow> (\<not> truthy pn \<or> (\<exists>s. pn = PyStr s \<and> lower py s = lower py (name p)))"
  by (cases pn) (auto simp: name_mismatch_def)

lemma failure_result_simps:
  "\<not> success (failure_result m)" "result_order_id (failure_result m) = None"
  "result_total_price (failure_result m) = None" "message (failure_result m) = m"
  by (simp_all add: failure_result_def)

lemma validate_cases:
  obtains (invalid) m po where "validate_product_availability py ps k n = (False, m, po)"
      "\<not> (\<exists>p. map_of ps k = Some p \<and> int_of n \<le> stock_quantity p)"
  | (valid) p where "validate_product_availability py ps k n = (True, ''Product available'', Some p)"
      "map_of ps k = Some p" "int_of n \<le> stock_quantity p"
proof (cases "validate_product_availability py ps k n")
  case (fields b m po)
  show ?thesis
  proof (cases b)
    case True
    with fields validate_True [of py ps k n m po] valid show ?thesis by auto
  next
    case False
    with fields validate_fst [of py ps k n] invalid show ?thesis by auto
  qed
qed

lemma process_order_body_valid:
  assumes "Order_new pid q a pn = Inr ord"
    and "validate_product_availability py (products st) (str_of pid) q = (True, m, Some p)"
  shows "process_order_body py e st pid q a pn =
     (case name_mismatch py pn p of
        Inl err \<Rightarrow> Inl err
      | Inr True \<Rightarrow> Inr (failure_result (''Product name mismatch. Expected '' @ sq @ name p
                                     @ sq @ '' for product ID '' @ str_of pid), st)
      | Inr False \<Rightarrow>
          (case from_order py e ord p None of
             Inl err \<Rightarrow> Inl err
           | Inr stored \<Rightarrow>
               if append_ok e
               then Inr (success_result p stored q a,
                         st\<lparr>ledger := ledger st @ [to_csv_row py stored],
                            products := AList.update (str_of pid)
                               (p\<lparr>stock_quantity := stock_quantity p - int_of q\<rparr>) (products st)\<rparr>)
               else Inr (failure_result ''Failed to save order. Please try again.'', st)))"
  using assms
  by (simp add: process_order_body_def save_order_to_csv_def split: sum.splits bool.splits)

lemma process_order_body_invalid:
  assumes "Order_new pid q a pn = Inr ord"
    and "validate_product_availability py (products st) (str_of pid) q = (False, m, po)"
  shows "process_order_body py e st pid q a pn = Inr (failure_result m, st)"
  using assms by (simp add: process_order_body_def)

lemma process_order_body_bad_order:
  assumes "Order_new pid q a pn = Inl err"
  shows "process_order_body py e st pid q a pn = Inl err"
  using assms by (simp add: process_order_body_def)

lemma process_order_Inl:
  "process_order_body py e st pid q a pn = Inl err \<Longrightarrow>
     \<exists>m. process_order py e st pid q a pn = (failure_result m, st)"
  by (cases err) (auto simp: process_order_def)

lemma process_order_Inr:
  "process_order_body py e st pid q a pn = Inr r \<Longrightarrow> process_order py e st pid q a pn = r"
  by (simp add: process_order_def)

text \<open>Every call ends in one of two ways.\<close>

lemma process_order_cases:
  obtains (failed) m where "process_order py e st pid q a pn = (failure_result m, st)"
  | (placed) ord p stored where
      "Order_new pid q a pn = Inr ord"
      "map_of (products st) (str_of pid) = Some p" "int_of q \<le> stock_quantity p"
      "name_mismatch py pn p = Inr False" "from_order py e ord p None = Inr stored" "append_ok e"
      "process_order py e st pid q a pn =
         (success_result p stored q a,
          st\<lparr>ledger := ledger st @ [to_csv_row py stored],
             products := AList.update (str_of pid)
                (p\<lparr>stock_quantity := stock_quantity p - int_of q\<rparr>) (products st)\<rparr>)"
proof (cases "Order_new pid q a pn")
  case (Inl err)
  then show ?thesis
    using process_order_body_bad_order process_order_Inl failed by blast
next
  case (Inr ord)
  show ?thesis
  proof (cases py "products st" "str_of pid" q rule: validate_cases)
    case (invalid m po)
    then show ?thesis
      using process_order_body_invalid [OF Inr] process_order_Inr failed by blast
  next
    case (valid p)
    note body = process_order_body_valid [OF Inr valid(1), of e]
    show ?thesis
    proof (cases "name_mismatch py pn p")
      case (Inl err)
      with body have "process_order_body py e st pid q a pn = Inl err" by simp
      then show ?thesis using process_order_Inl failed by blast
    next
      case mm: (Inr b)
      show ?thesis
      proof (cases b)
        case True
        with body mm show ?thesis using process_order_Inr failed by fastforce
      next
        case False
        show ?thesis
        proof (cases "from_order py e ord p None")
          case (Inl err)
          with body mm False have "process_order_body py e st pid q a pn = Inl err" by simp
          then show ?thesis using process_order_Inl failed by blast
        next
          case so: (Inr stored)
          show ?thesis
          proof (cases "append_ok e")
            case True
            with body mm False so have
              "process_order_body py e st pid q a pn =
                 Inr (success_result p stored q a,
                      st\<lparr>ledger := ledger st @ [to_csv_row py stored],
                         products := AList.update (str_of pid)
                            (p\<lparr>stock_quantity := stock_quantity p - int_of q\<rparr>) (products st)\<rparr>)"
              by simp
            then have "process_order py e st pid q a pn =
                 (success_result p stored q a,
                  st\<lparr>ledger := ledger st @ [to_csv_row py stored],
                     products := AList.update (str_of pid)
                        (p\<lparr>stock_quantity := stock_quantity p - int_of q\<rparr>) (products st)\<rparr>)"
              by (rule process_order_Inr)
            moreover have "name_mismatch py pn p = Inr False" using mm False by simp
            ultimately show ?thesis
              by (rule placed [OF Inr valid(2,3) _ so True, rotated])
          next
            case no: False
            with body mm False so have
              "process_order_body py e st pid q a pn =
                 Inr (failure_result ''Failed to save order. Please try again.'', st)"
              by simp
            then show ?thesis using process_order_Inr failed by blast
          qed
        qed
      qed
    qed
  qed
qed

lemma from_order_explicit:
  assumes "order_product_id ord \<noteq> []" "isinstance_int (order_quantity ord)"
    and "0 < int_of (order_quantity ord)" "order_delivery_address ord \<noteq> []"
    and "float_mul py (price p) (int_of (order_quantity ord)) = Some t" "0 \<le> t"
    and "name p \<noteq> []"
    and "\<not> truthy (order_product_name ord) \<or> isinstance_str (order_product_name ord)"
  shows "from_order py e ord p None =
     Inr \<lparr>order_id = ''ORD'' @ upper (take 6 (uuid_hex e)),
          so_product_id = order_product_id ord,
          so_product_name = (if truthy (order_product_name ord) then str_of (order_product_name ord)
                             else name p),
          so_quantity = order_quantity ord,
          so_delivery_address = order_delivery_address ord,
          order_date = PyStr (today e),
          total_price = PyFloat t\<rparr>"
  using assms
  by (cases "order_product_name ord")
     (auto simp: from_order_def StoredOrder_new_def StoredOrder_post_init_def Let_def)

lemma from_order_name:
  "from_order py e ord p oid = Inr stored \<Longrightarrow>
     PyStr (so_product_name stored) =
       (if truthy (order_product_name ord) then order_product_name ord else PyStr (name p))"
  by (cases "order_product_name ord")
     (auto simp: from_order_def StoredOrder_new_def StoredOrder_post_init_def Let_def
           split: option.splits if_splits)

text \<open>The successful path, with everything it writes.\<close>

lemma process_order_success:
  assumes cat: "catalog_ok (products st)"
    and look: "map_of (products st) pid = Some p"
    and q: "isinstance_int q" "0 < int_of q" "int_of q \<le> stock_quantity p"
    and addr: "addr \<noteq> []"
    and nm: "\<not> truthy pn \<or> (\<exists>s. pn = PyStr s \<and> lower py s = lower py (name p))"
    and mul: "float_mul py (price p) (int_of q) = Some t" "0 \<le> t"
    and io: "append_ok e"
  shows "process_order py e st (PyStr pid) q (PyStr addr) pn =
     (\<lparr>success = True,
       message = ''Order '' @ (''ORD'' @ upper (take 6 (uuid_hex e)))
                   @ '' placed successfully for '' @ name p,
       result_order_id = Some (''ORD'' @ upper (take 6 (uuid_hex e))),
       result_total_price = Some (PyFloat t),
       result_order_details = Some
         \<lparr>details_product_name = name p, details_quantity = q, details_unit_price = price p,
          details_total_price = PyFloat t, details_delivery_address = addr,
          details_order_date = PyStr (today e)\<rparr>\<rparr>,
      st\<lparr>ledger := ledger st @ [[PyStr (''ORD'' @ upper (take 6 (uuid_hex e))), PyStr pid,
                                  PyStr (if truthy pn then str_of pn else name p),
                                  PyStr (py_str py q), PyStr addr, PyStr (today e),
                                  PyStr (float_str py t)]],
         products := AList.update pid (p\<lparr>stock_quantity := stock_quantity p - int_of q\<rparr>)
                       (products st)\<rparr>)"
proof -
  from catalog_ok_lookup [OF cat look] have pv: "product_id p = pid" "Product_valid p" by auto
  then have pid: "pid \<noteq> []" and pname: "name p \<noteq> []"
    by (auto simp: Product_valid_iff)
  let ?ord = "\<lparr>order_product_id = pid, order_quantity = q, order_delivery_address = addr,
                order_product_name = pn\<rparr>"
  have ord: "Order_new (PyStr pid) q (PyStr addr) pn = Inr ?ord"
    using pid q addr by (simp add: Order_new_Inr)
  have val: "validate_product_availability py (products st) (str_of (PyStr pid)) q
               = (True, ''Product available'', Some p)"
    using look q by (simp add: validate_True)
  have mm: "name_mismatch py pn p = Inr False"
    using nm by (simp add: name_mismatch_False)
  have str: "\<not> truthy pn \<or> isinstance_str pn"
    using nm by auto
  let ?so = "\<lparr>order_id = ''ORD'' @ upper (take 6 (uuid_hex e)), so_product_id = pid,
          so_product_name = (if truthy pn then str_of pn else name p), so_quantity = q,
          so_delivery_address = addr, order_date = PyStr (today e), total_price = PyFloat t\<rparr>"
  have fo: "from_order py e ?ord p None = Inr ?so"
    using from_order_explicit [of ?ord py p t e] pid q addr mul pname str by simp
  have "process_order_body py e st (PyStr pid) q (PyStr addr) pn =
     Inr (success_result p ?so q (PyStr addr),
          st\<lparr>ledger := ledger st @ [to_csv_row py ?so],
             products := AList.update (str_of (PyStr pid))
                (p\<lparr>stock_quantity := stock_quantity p - int_of q\<rparr>) (products st)\<rparr>)"
    unfolding process_order_body_valid [OF ord val] using mm fo io by simp
  then show ?thesis
    by (simp add: process_order_def success_result_def to_csv_row_def)
qed

lemma process_order_fails:
  assumes "Order_post_init pid q a pn \<noteq> None
     \<or> map_of (products st) (str_of pid) = None
     \<or> (\<exists>p. map_of (products st) (str_of pid) = Some p
            \<and> (stock_quantity p < int_of q
                \<or> (\<exists>s. pn = PyStr s \<and> s \<noteq> [] \<and> lower py s \<noteq> lower py (name p))))
     \<or> \<not> append_ok e"
  shows "\<exists>m. process_order py e st pid q a pn = (failure_result m, st)"
  using process_order_cases [of py e st pid q a pn]
proof cases
  case (failed m)
  then show ?thesis by blast
next
  case (placed ord p stored)
  from placed(1) have "Order_post_init pid q a pn = None"
    by (auto simp: Order_new_def split: option.splits)
  moreover from placed(4) have "\<And>s. pn = PyStr s \<Longrightarrow> s \<noteq> [] \<Longrightarrow> lower py s = lower py (name p)"
    by (auto simp: name_mismatch_False)
  ultimately have False
    using assms(1) placed(2,3,6) by auto
  then show ?thesis ..
qed

lemma map_of_update_stock:
  "map_of (AList.update k v ps) k' = (if k' = k then Some v else map_of ps k')"
  by (simp add: AList.update_conv')

lemma simple_order_examples:
  "''ORD'' @ upper (take 6 ''a1b2c3d4e5f60718293a4b5c6d7e8f90'') = ''ORDA1B2C3''"
  "lower simple_builtins ''desk lamp'' = ''desk lamp''"
  "lower simple_builtins ''Desk Lamp'' = ''desk lamp''"
  "float_mul simple_builtins 25 2 = Some 50"
  "float_str simple_builtins 50 = ''50.0''"
  "str_int 2 = ''2''"
  by (simp_all add: upper_def upper_char_def simple_builtins_def ascii_lower_def ascii_lower_char_def
        str_int_def str_nat_small str_nat_big digit_char_def)

text \<open>
  Claim C1, as the code has it. Take a table as the catalog loader builds it, a known
  product id, a quantity that is a positive integer not above the stock, a non-empty
  delivery address, a product name that is absent (falsy) or whose \<open>lower()\<close> equals that
  of the catalog name, a float product \<open>t\<close> of the unit price and the quantity that
  Python computes (it raises only for a quantity beyond the float range) and that is not
  negative, as the product of a non-negative price and a positive quantity is, and a ledger
  append that goes through. Then \<open>process_order\<close> appends exactly one row to the ledger,
  lowers that product's stock by the quantity and leaves every other product alone, and
  returns a success result with \<open>total_price\<close> equal to \<open>t\<close> and the message
  "Order (order id) placed successfully for (catalog name)". The availability check of a
  later call sees the lowered stock: it passes exactly for quantities up to what is left,
  and a later order above that fails.
\<close>

theorem process_order_places_order:
  assumes "catalog_ok (products st)"
    and "map_of (products st) pid = Some p"
    and "isinstance_int q" and "0 < int_of q" and "int_of q \<le> stock_quantity p"
    and "addr \<noteq> []"
    and "\<not> truthy pn \<or> (\<exists>s. pn = PyStr s \<and> lower py s = lower py (name p))"
    and "float_mul py (price p) (int_of q) = Some t" and "0 \<le> t"
    and "append_ok e"
  shows "\<exists>r st'. process_order py e st (PyStr pid) q (PyStr addr) pn = (r, st')
     \<and> success r
     \<and> message r = ''Order '' @ (''ORD'' @ upper (take 6 (uuid_hex e)))
                      @ '' placed successfully for '' @ name p
     \<and> result_order_id r = Some (''ORD'' @ upper (take 6 (uuid_hex e)))
     \<and> result_total_price r = Some (PyFloat t)
     \<and> ledger st' = ledger st @ [[PyStr (''ORD'' @ upper (take 6 (uuid_hex e))), PyStr pid,
                                   PyStr (if truthy pn then str_of pn else name p),
                                   PyStr (py_str py q), PyStr addr, PyStr (today e),
                                   PyStr (float_str py t)]]
     \<and> length (ledger st') = length (ledger st) + 1
     \<and> map_of (products st') pid = Some (p\<lparr>stock_quantity := stock_quantity p - int_of q\<rparr>)
     \<and> (\<forall>k. k \<noteq> pid \<longrightarrow> map_of (products st') k = map_of (products st) k)
     \<and> (\<forall>py2 q2. fst (validate_product_availability py2 (products st') pid q2)
               \<longleftrightarrow> int_of q2 \<le> stock_quantity p - int_of q)
     \<and> (\<forall>py2 e2 q2 a2 n2. stock_quantity p - int_of q < int_of q2 \<longrightarrow>
            \<not> success (fst (process_order py2 e2 st' (PyStr pid) q2 a2 n2)))"
proof -
  let ?st' = "st\<lparr>ledger := ledger st @ [[PyStr (''ORD'' @ upper (take 6 (uuid_hex e))), PyStr pid,
                                  PyStr (if truthy pn then str_of pn else name p),
                                  PyStr (py_str py q), PyStr addr, PyStr (today e),
                                  PyStr (float_str py t)]],
         products := AList.update pid (p\<lparr>stock_quantity := stock_quantity p - int_of q\<rparr>)
                       (products st)\<rparr>"
  note run = process_order_success [OF assms]
  have look': "map_of (products ?st') pid = Some (p\<lparr>stock_quantity := stock_quantity p - int_of q\<rparr>)"
    by (simp add: map_of_update_stock)
  have other: "\<forall>k. k \<noteq> pid \<longrightarrow> map_of (products ?st') k = map_of (products st) k"
    by (simp add: map_of_update_stock)
  have avail: "\<forall>py2 q2. fst (validate_product_availability py2 (products ?st') pid q2)
               \<longleftrightarrow> int_of q2 \<le> stock_quantity p - int_of q"
    using look' by (simp add: validate_fst)
  have again: "\<forall>py2 e2 q2 a2 n2. stock_quantity p - int_of q < int_of q2 \<longrightarrow>
            \<not> success (fst (process_order py2 e2 ?st' (PyStr pid) q2 a2 n2))"
  proof (intro allI impI)
    fix py2 e2 q2 a2 n2
    assume "stock_quantity p - int_of q < int_of q2"
    then have "\<exists>m. process_order py2 e2 ?st' (PyStr pid) q2 a2 n2 = (failure_result m, ?st')"
      using look' by (intro process_order_fails) simp
    then show "\<not> success (fst (process_order py2 e2 ?st' (PyStr pid) q2 a2 n2))"
      by (auto simp: failure_result_simps)
  qed
  show ?thesis
    apply (rule exI, rule exI [of _ ?st'])
    apply (rule conjI, rule run)
    using look' other avail again apply simp
    done
qed

text \<open>The theorem at an order of two lamps out of three, named in lower case.\<close>

theorem process_order_places_order_witness:
  "catalog_ok [(''P001'', \<lparr>product_id = ''P001'', name = ''Desk Lamp'', description = PyStr ''A lamp'',
                           price = 25, stock_quantity = 3, category = ''Lighting''\<rparr>)]
   \<and> float_mul simple_builtins 25 2 = Some 50
   \<and> lower simple_builtins ''desk lamp'' = lower simple_builtins ''Desk Lamp''
   \<and> (\<exists>r st'.
         process_order simple_builtins
           \<lparr>uuid_hex = ''a1b2c3d4e5f60718293a4b5c6d7e8f90'', today = ''2024-05-01'', append_ok = True\<rparr>
           \<lparr>products = [(''P001'', \<lparr>product_id = ''P001'', name = ''Desk Lamp'',
                           description = PyStr ''A lamp'', price = 25, stock_quantity = 3,
                           category = ''Lighting''\<rparr>)], ledger = []\<rparr>
           (PyStr ''P001'') (PyInt 2) (PyStr ''12 Main St'') (PyStr ''desk lamp'') = (r, st')
         \<and> success r
         \<and> message r = ''Order ORDA1B2C3 placed successfully for Desk Lamp''
         \<and> result_total_price r = Some (PyFloat 50)
         \<and> ledger st' = [[PyStr ''ORDA1B2C3'', PyStr ''P001'', PyStr ''desk lamp'', PyStr ''2'',
                           PyStr ''12 Main St'', PyStr ''2024-05-01'', PyStr ''50.0'']]
         \<and> map_of (products st') ''P001'' = Some \<lparr>product_id = ''P001'', name = ''Desk Lamp'',
                           description = PyStr ''A lamp'', price = 25, stock_quantity = 1,
                           category = ''Lighting''\<rparr>
         \<and> \<not> fst (validate_product_availability simple_builtins (products st') ''P001'' (PyInt 2)))"
proof -
  let ?p = "\<lparr>product_id = ''P001'', name = ''Desk Lamp'', description = PyStr ''A lamp'',
             price = 25, stock_quantity = 3, category = ''Lighting''\<rparr>"
  let ?st = "\<lparr>products = [(''P001'', ?p)], ledger = []\<rparr>"
  let ?e = "\<lparr>uuid_hex = ''a1b2c3d4e5f60718293a4b5c6d7e8f90'', today = ''2024-05-01'', append_ok = True\<rparr>"
  have h1: "catalog_ok (products ?st)"
    by (simp add: catalog_ok_def Product_valid_iff)
  have h2: "map_of (products ?st) ''P001'' = Some ?p" by simp
  have h3: "isinstance_int (PyInt 2)" "0 < int_of (PyInt 2)" "int_of (PyInt 2) \<le> stock_quantity ?p"
    "''12 Main St'' \<noteq> []" by simp_all
  have h4: "\<not> truthy (PyStr ''desk lamp'')
      \<or> (\<exists>s. PyStr ''desk lamp'' = PyStr s \<and> lower simple_builtins s = lower simple_builtins (name ?p))"
    by (simp add: simple_order_examples)
  have h5: "float_mul simple_builtins (price ?p) (int_of (PyInt 2)) = Some 50" "(0::real) \<le> 50"
    by (simp_all add: simple_order_examples)
  have h6: "append_ok ?e" by simp
  show ?thesis
    using process_order_places_order [OF h1 h2 h3 h4 h5 h6] h1 simple_order_examples
    by auto
qed

text \<open>
  Claim C1 as stated fails: for a known product with enough stock and no name supplied,
  a quantity of 0 is rejected as invalid order data, and a positive quantity is not placed
  when the ledger append fails. Neither call adds a row or changes the stock.
\<close>

theorem process_order_rejects_counterexample:
  "process_order simple_builtins
     \<lparr>uuid_hex = ''a1b2c3d4e5f60718293a4b5c6d7e8f90'', today = ''2024-05-01'', append_ok = True\<rparr>
     \<lparr>products = [(''P001'', \<lparr>product_id = ''P001'', name = ''Desk Lamp'',
                              description = PyStr ''A lamp'', price = 25, stock_quantity = 3,
                              category = ''Lighting''\<rparr>)],
      ledger = []\<rparr>
     (PyStr ''P001'') (PyInt 0) (PyStr ''12 Main St'') PyNone
   = (failure_result ''Invalid order data: Quantity must be a positive integer'',
      \<lparr>products = [(''P001'', \<lparr>product_id = ''P001'', name = ''Desk Lamp'',
                              description = PyStr ''A lamp'', price = 25, stock_quantity = 3,
                              category = ''Lighting''\<rparr>)],
       ledger = []\<rparr>)
   \<and> process_order simple_builtins
     \<lparr>uuid_hex = ''a1b2c3d4e5f60718293a4b5c6d7e8f90'', today = ''2024-05-01'', append_ok = False\<rparr>
     \<lparr>products = [(''P001'', \<lparr>product_id = ''P001'', name = ''Desk Lamp'',
                              description = PyStr ''A lamp'', price = 25, stock_quantity = 3,
                              category = ''Lighting''\<rparr>)],
      ledger = []\<rparr>
     (PyStr ''P001'') (PyInt 2) (PyStr ''12 Main St'') PyNone
   = (failure_result ''Failed to save order. Please try again.'',
      \<lparr>products = [(''P001'', \<lparr>product_id = ''P001'', name = ''Desk Lamp'',
                              description = PyStr ''A lamp'', price = 25, stock_quantity = 3,
                              category = ''Lighting''\<rparr>)],
       ledger = []\<rparr>)"
  by (simp add: process_order_def process_order_body_def Order_new_def Order_post_init_def
        validate_product_availability_def is_in_stock_def name_mismatch_def from_order_def
        StoredOrder_new_def StoredOrder_post_init_def save_order_to_csv_def Let_def
        simple_order_examples)

text \<open>
  Claim C2. \<open>process_order\<close> returns a result on every input (it is a total function
  whose handlers turn every exception of the body into a result). A result without
  success has no order id and no total price and leaves the product table as it was;
  invalid order fields, an unknown product id, insufficient stock, a supplied name whose
  \<open>lower()\<close> differs from that of the catalog name, and a failed ledger append each give
  such a result; and the product table changes only when the ledger append went through,
  with exactly one row added.
\<close>

theorem process_order_failure:
  "(let R = process_order py e st pid q a pn in
      (\<not> success (fst R) \<longrightarrow>
         result_order_id (fst R) = None \<and> result_total_price (fst R) = None
         \<and> products (snd R) = products st)
    \<and> (Order_post_init pid q a pn \<noteq> None
         \<or> map_of (products st) (str_of pid) = None
         \<or> (\<exists>p. map_of (products st) (str_of pid) = Some p
                \<and> (stock_quantity p < int_of q
                    \<or> (\<exists>s. pn = PyStr s \<and> s \<noteq> [] \<and> lower py s \<noteq> lower py (name p))))
         \<or> \<not> append_ok e
        \<longrightarrow> \<not> success (fst R))
    \<and> (products (snd R) \<noteq> products st \<longrightarrow>
         append_ok e \<and> success (fst R) \<and> length (ledger (snd R)) = length (ledger st) + 1))"
  using process_order_cases [of py e st pid q a pn]
proof cases
  case (failed m)
  then show ?thesis
    by (simp add: Let_def failure_result_simps)
next
  case (placed ord p stored)
  have ok: "success (success_result p stored q a)"
    by (simp add: success_result_def)
  have "\<not> (Order_post_init pid q a pn \<noteq> None
         \<or> map_of (products st) (str_of pid) = None
         \<or> (\<exists>p. map_of (products st) (str_of pid) = Some p
                \<and> (stock_quantity p < int_of q
                    \<or> (\<exists>s. pn = PyStr s \<and> s \<noteq> [] \<and> lower py s \<noteq> lower py (name p))))
         \<or> \<not> append_ok e)"
  proof
    assume "Order_post_init pid q a pn \<noteq> None
         \<or> map_of (products st) (str_of pid) = None
         \<or> (\<exists>p. map_of (products st) (str_of pid) = Some p
                \<and> (stock_quantity p < int_of q
                    \<or> (\<exists>s. pn = PyStr s \<and> s \<noteq> [] \<and> lower py s \<noteq> lower py (name p))))
         \<or> \<not> append_ok e"
    from process_order_fails [OF this] placed(7) ok show False
      by (auto simp: failure_result_simps)
  qed
  then show ?thesis
    using placed(6,7) ok by (simp add: Let_def)
qed

text \<open>The theorem at an unknown product id, and at an order that is placed.\<close>

theorem process_order_failure_witness:
  "map_of [(''P001'', \<lparr>product_id = ''P001'', name = ''Desk Lamp'', description = PyStr ''A lamp'',
                        price = 25, stock_quantity = 3, category = ''Lighting''\<rparr>)] ''P999'' = None
   \<and> (let R = process_order simple_builtins
          \<lparr>uuid_hex = ''a1b2c3d4e5f60718293a4b5c6d7e8f90'', today = ''2024-05-01'', append_ok = True\<rparr>
          \<lparr>products = [(''P001'', \<lparr>product_id = ''P001'', name = ''Desk Lamp'',
                          description = PyStr ''A lamp'', price = 25, stock_quantity = 3,
                          category = ''Lighting''\<rparr>)], ledger = []\<rparr>
          (PyStr ''P999'') (PyInt 2) (PyStr ''12 Main St'') PyNone
       in \<not> success (fst R) \<and> result_order_id (fst R) = None \<and> result_total_price (fst R) = None
          \<and> products (snd R) = [(''P001'', \<lparr>product_id = ''P001'', name = ''Desk Lamp'',
                          description = PyStr ''A lamp'', price = 25, stock_quantity = 3,
                          category = ''Lighting''\<rparr>)])
   \<and> (let R = process_order simple_builtins
          \<lparr>uuid_hex = ''a1b2c3d4e5f60718293a4b5c6d7e8f90'', today = ''2024-05-01'', append_ok = True\<rparr>
          \<lparr>products = [(''P001'', \<lparr>product_id = ''P001'', name = ''Desk Lamp'',
                          description = PyStr ''A lamp'', price = 25, stock_quantity = 3,
                          category = ''Lighting''\<rparr>)], ledger = []\<rparr>
          (PyStr ''P001'') (PyInt 2) (PyStr ''12 Main St'') PyNone
       in products (snd R) \<noteq> [(''P001'', \<lparr>product_id = ''P001'', name = ''Desk Lamp'',
                           description = PyStr ''A lamp'', price = 25, stock_quantity = 3,
                           category = ''Lighting''\<rparr>)]
          \<and> success (fst R) \<and> length (ledger (snd R)) = 1)"
proof -
  let ?p = "\<lparr>product_id = ''P001'', name = ''Desk Lamp'', description = PyStr ''A lamp'',
             price = 25, stock_quantity = 3, category = ''Lighting''\<rparr>"
  let ?st = "\<lparr>products = [(''P001'', ?p)], ledger = []\<rparr>"
  let ?e = "\<lparr>uuid_hex = ''a1b2c3d4e5f60718293a4b5c6d7e8f90'', today = ''2024-05-01'', append_ok = True\<rparr>"
  have h1: "catalog_ok (products ?st)"
    by (simp add: catalog_ok_def Product_valid_iff)
  have ch: "products (snd (process_order simple_builtins ?e ?st (PyStr ''P001'') (PyInt 2)
              (PyStr ''12 Main St'') PyNone)) \<noteq> products ?st"
    using process_order_success [OF h1, where pid = "''P001''" and p = ?p and q = "PyInt 2"
            and addr = "''12 Main St''" and pn = PyNone and py = simple_builtins and t = 50
            and e = ?e]
    by (simp add: simple_order_examples)
  show ?thesis
    using process_order_failure [of simple_builtins ?e ?st "PyStr ''P999''" "PyInt 2"
            "PyStr ''12 Main St''" PyNone]
      process_order_failure [of simple_builtins ?e ?st "PyStr ''P001''" "PyInt 2"
            "PyStr ''12 Main St''" PyNone] ch
    by (simp add: Let_def)
qed

text \<open>
  Claim C10. \<open>StoredOrder.from_order\<close> stores the product name the order carries when
  one is supplied (truthy), and the catalog name only when none is; a placed order whose
  supplied name equals the catalog name up to \<open>lower()\<close> writes the supplied spelling to
  the ledger, which can differ from the catalog name in letter case; and whenever an order
  with a supplied name is placed, the name column of the row it adds is the supplied name.
\<close>

theorem from_order_keeps_supplied_name:
  "(from_order py e ord p oid = Inr stored \<and> truthy (order_product_name ord) \<longrightarrow>
      order_product_name ord = PyStr (so_product_name stored))
   \<and> (from_order py e ord p oid = Inr stored \<and> \<not> truthy (order_product_name ord) \<longrightarrow>
      so_product_name stored = name p)
   \<and> (catalog_ok (products st) \<and> map_of (products st) pid = Some p \<and> 0 < q
        \<and> q \<le> stock_quantity p \<and> addr \<noteq> [] \<and> s \<noteq> [] \<and> lower py s = lower py (name p)
        \<and> float_mul py (price p) q = Some t \<and> 0 \<le> t \<and> append_ok e \<longrightarrow>
      success (fst (process_order py e st (PyStr pid) (PyInt q) (PyStr addr) (PyStr s)))
      \<and> ledger (snd (process_order py e st (PyStr pid) (PyInt q) (PyStr addr) (PyStr s)))
          = ledger st @ [[PyStr (''ORD'' @ upper (take 6 (uuid_hex e))), PyStr pid, PyStr s,
                          PyStr (str_int q), PyStr addr, PyStr (today e),
                          PyStr (float_str py t)]])
   \<and> (success (fst (process_order py e st k n a pn)) \<and> truthy pn \<longrightarrow>
      (\<exists>row. ledger (snd (process_order py e st k n a pn)) = ledger st @ [row]
           \<and> length row = 7 \<and> row ! 2 = pn))"
proof (intro conjI impI)
  assume "from_order py e ord p oid = Inr stored \<and> truthy (order_product_name ord)"
  then show "order_product_name ord = PyStr (so_product_name stored)"
    using from_order_name [of py e ord p oid stored] by simp
next
  assume "from_order py e ord p oid = Inr stored \<and> \<not> truthy (order_product_name ord)"
  then show "so_product_name stored = name p"
    using from_order_name [of py e ord p oid stored] by simp
next
  assume a: "catalog_ok (products st) \<and> map_of (products st) pid = Some p \<and> 0 < q
        \<and> q \<le> stock_quantity p \<and> addr \<noteq> [] \<and> s \<noteq> [] \<and> lower py s = lower py (name p)
        \<and> float_mul py (price p) q = Some t \<and> 0 \<le> t \<and> append_ok e"
  then have "\<not> truthy (PyStr s) \<or> (\<exists>u. PyStr s = PyStr u \<and> lower py u = lower py (name p))"
    by simp
  from process_order_success [OF _ _ _ _ _ _ this, where st = st and pid = pid
         and q = "PyInt q" and addr = addr and t = t and e = e] a
  show "success (fst (process_order py e st (PyStr pid) (PyInt q) (PyStr addr) (PyStr s)))"
    and "ledger (snd (process_order py e st (PyStr pid) (PyInt q) (PyStr addr) (PyStr s)))
          = ledger st @ [[PyStr (''ORD'' @ upper (take 6 (uuid_hex e))), PyStr pid, PyStr s,
                          PyStr (str_int q), PyStr addr, PyStr (today e),
                          PyStr (float_str py t)]]"
    by simp_all
next
  assume b: "success (fst (process_order py e st k n a pn)) \<and> truthy pn"
  show "\<exists>row. ledger (snd (process_order py e st k n a pn)) = ledger st @ [row]
           \<and> length row = 7 \<and> row ! 2 = pn"
    using process_order_cases [of py e st k n a pn]
  proof cases
    case (failed m)
    with b show ?thesis by (simp add: failure_result_simps)
  next
    case (placed ord' p' stored')
    from placed(1) have "order_product_name ord' = pn"
      by (auto simp: Order_new_Inr)
    with from_order_name [OF placed(5)] b have "PyStr (so_product_name stored') = pn"
      by simp
    then show ?thesis
      using placed(7) by (simp add: to_csv_row_nth)
  qed
qed

text \<open>
  The theorem at an order for "desk lamp" against the catalog's "Desk Lamp", and at the
  same order without a name.
\<close>

theorem from_order_keeps_supplied_name_witness:
  "from_order simple_builtins
      \<lparr>uuid_hex = ''a1b2c3d4e5f60718293a4b5c6d7e8f90'', today = ''2024-05-01'', append_ok = True\<rparr>
      \<lparr>order_product_id = ''P001'', order_quantity = PyInt 2,
       order_delivery_address = ''12 Main St'', order_product_name = PyStr ''desk lamp''\<rparr>
      \<lparr>product_id = ''P001'', name = ''Desk Lamp'', description = PyStr ''A lamp'',
       price = 25, stock_quantity = 3, category = ''Lighting''\<rparr> None
    = Inr \<lparr>order_id = ''ORDA1B2C3'', so_product_id = ''P001'', so_product_name = ''desk lamp'',
           so_quantity = PyInt 2, so_delivery_address = ''12 Main St'',
           order_date = PyStr ''2024-05-01'', total_price = PyFloat 50\<rparr>
   \<and> from_order simple_builtins
      \<lparr>uuid_hex = ''a1b2c3d4e5f60718293a4b5c6d7e8f90'', today = ''2024-05-01'', append_ok = True\<rparr>
      \<lparr>order_product_id = ''P001'', order_quantity = PyInt 2,
       order_delivery_address = ''12 Main St'', order_product_name = PyNone\<rparr>
      \<lparr>product_id = ''P001'', name = ''Desk Lamp'', description = PyStr ''A lamp'',
       price = 25, stock_quantity = 3, category = ''Lighting''\<rparr> None
    = Inr \<lparr>order_id = ''ORDA1B2C3'', so_product_id = ''P001'', so_product_name = ''Desk Lamp'',
           so_quantity = PyInt 2, so_delivery_address = ''12 Main St'',
           order_date = PyStr ''2024-05-01'', total_price = PyFloat 50\<rparr>
   \<and> catalog_ok [(''P001'', \<lparr>product_id = ''P001'', name = ''Desk Lamp'',
                           description = PyStr ''A lamp'', price = 25, stock_quantity = 3,
                           category = ''Lighting''\<rparr>)]
   \<and> lower simple_builtins ''desk lamp'' = lower simple_builtins ''Desk Lamp''
   \<and> ''desk lamp'' \<noteq> ''Desk Lamp''
   \<and> float_mul simple_builtins 25 2 = Some 50
   \<and> success (fst (process_order simple_builtins
           \<lparr>uuid_hex = ''a1b2c3d4e5f60718293a4b5c6d7e8f90'', today = ''2024-05-01'', append_ok = True\<rparr>
           \<lparr>products = [(''P001'', \<lparr>product_id = ''P001'', name = ''Desk Lamp'',
                           description = PyStr ''A lamp'', price = 25, stock_quantity = 3,
                           category = ''Lighting''\<rparr>)], ledger = []\<rparr>
           (PyStr ''P001'') (PyInt 2) (PyStr ''12 Main St'') (PyStr ''desk lamp'')))
   \<and> ledger (snd (process_order simple_builtins
           \<lparr>uuid_hex = ''a1b2c3d4e5f60718293a4b5c6d7e8f90'', today = ''2024-05-01'', append_ok = True\<rparr>
           \<lparr>products = [(''P001'', \<lparr>product_id = ''P001'', name = ''Desk Lamp'',
                           description = PyStr ''A lamp'', price = 25, stock_quantity = 3,
                           category = ''Lighting''\<rparr>)], ledger = []\<rparr>
           (PyStr ''P001'') (PyInt 2) (PyStr ''12 Main St'') (PyStr ''desk lamp'')))
       = [[PyStr ''ORDA1B2C3'', PyStr ''P001'', PyStr ''desk lamp'', PyStr ''2'',
           PyStr ''12 Main St'', PyStr ''2024-05-01'', PyStr ''50.0'']]
   \<and> (\<exists>row. ledger (snd (process_order simple_builtins
           \<lparr>uuid_hex = ''a1b2c3d4e5f60718293a4b5c6d7e8f90'', today = ''2024-05-01'', append_ok = True\<rparr>
           \<lparr>products = [(''P001'', \<lparr>product_id = ''P001'', name = ''Desk Lamp'',
                           description = PyStr ''A lamp'', price = 25, stock_quantity = 3,
                           category = ''Lighting''\<rparr>)], ledger = []\<rparr>
           (PyStr ''P001'') (PyInt 2) (PyStr ''12 Main St'') (PyStr ''desk lamp''))) = [row]
        \<and> length row = 7 \<and> row ! 2 = PyStr ''desk lamp'')"
proof -
  let ?p = "\<lparr>product_id = ''P001'', name = ''Desk Lamp'', description = PyStr ''A lamp'',
             price = 25, stock_quantity = 3, category = ''Lighting''\<rparr>"
  let ?st = "\<lparr>products = [(''P001'', ?p)], ledger = []\<rparr>"
  let ?e = "\<lparr>uuid_hex = ''a1b2c3d4e5f60718293a4b5c6d7e8f90'', today = ''2024-05-01'', append_ok = True\<rparr>"
  let ?o1 = "\<lparr>order_product_id = ''P001'', order_quantity = PyInt 2,
       order_delivery_address = ''12 Main St'', order_product_name = PyStr ''desk lamp''\<rparr>"
  let ?o2 = "\<lparr>order_product_id = ''P001'', order_quantity = PyInt 2,
       order_delivery_address = ''12 Main St'', order_product_name = PyNone\<rparr>"
  let ?s1 = "\<lparr>order_id = ''ORDA1B2C3'', so_product_id = ''P001'', so_product_name = ''desk lamp'',
           so_quantity = PyInt 2, so_delivery_address = ''12 Main St'',
           order_date = PyStr ''2024-05-01'', total_price = PyFloat 50\<rparr>"
  let ?s2 = "\<lparr>order_id = ''ORDA1B2C3'', so_product_id = ''P001'', so_product_name = ''Desk Lamp'',
           so_quantity = PyInt 2, so_delivery_address = ''12 Main St'',
           order_date = PyStr ''2024-05-01'', total_price = PyFloat 50\<rparr>"
  have h1: "catalog_ok (products ?st)"
    by (simp add: catalog_ok_def Product_valid_iff)
  have up: "upper ''a1b2c3'' = ''A1B2C3''"
    by (simp add: upper_def upper_char_def)
  have f1: "from_order simple_builtins ?e ?o1 ?p None = Inr ?s1"
    using from_order_explicit [where ord = ?o1 and p = ?p and py = simple_builtins and t = 50
            and e = ?e]
    by (simp add: simple_order_examples up)
  have f2: "from_order simple_builtins ?e ?o2 ?p None = Inr ?s2"
    using from_order_explicit [where ord = ?o2 and p = ?p and py = simple_builtins and t = 50
            and e = ?e]
    by (simp add: simple_order_examples up)
  show ?thesis
    using from_order_keeps_supplied_name [of simple_builtins ?e ?o1 ?p None ?s1
            ?st "''P001''" 2 "''12 Main St''" "''desk lamp''" 50
            "PyStr ''P001''" "PyInt 2" "PyStr ''12 Main St''" "PyStr ''desk lamp''"]
      from_order_keeps_supplied_name [of simple_builtins ?e ?o2 ?p None ?s2
            ?st "''P001''" 2 "''12 Main St''" "''desk lamp''" 50
            "PyStr ''P001''" "PyInt 2" "PyStr ''12 Main St''" "PyStr ''desk lamp''"]
      h1 f1 f2 simple_order_examples up
    by simp
qed

section \<open>Properties of the LLM service client\<close>

lemma attempts_Cons [simp]:
  "attempts (Post n # evs) = Suc (attempts evs)" "attempts (Sleep n # evs) = attempts evs"
  "attempts [] = 0"
  by (simp_all add: attempts_def)

lemma waits_Cons [simp]:
  "waits (Post n # evs) = waits evs" "waits (Sleep n # evs) = n # waits evs" "waits [] = []"
  by (simp_all add: waits_def)

lemma request_loop_attempts:
  "attempts (snd (request_loop mr resp le as)) \<le> length as"
proof (induction as arbitrary: le)
  case Nil
  show ?case by simp
next
  case (Cons a as)
  show ?case
  proof (cases "attempt_action mr a le (resp a)")
    case (Return j)
    then show ?thesis by simp
  next
    case (Raise err)
    then show ?thesis by simp
  next
    case (WaitContinue l)
    with Cons.IH [of l] show ?thesis by (auto split: prod.splits)
  next
    case (Continue l)
    with Cons.IH [of l] show ?thesis by (auto split: prod.splits)
  next
    case (Break l)
    then show ?thesis by simp
  qed
qed

lemma action_401:
  "attempt_action mr a le (Response 401 tx body) =
     Raise (Exception ''Authentication failed. Please check your SARVAM_API_KEY.'')"
  by (simp add: attempt_action_def)

lemma action_retryable:
  assumes "code = 429 \<or> (500 \<le> code \<and> code < 600)"
  shows "attempt_action mr a le (Response code tx body) =
     (if int a < mr then WaitContinue le
      else Raise (Exception (if code = 429 then ''Rate limit exceeded after all retries''
                             else ''Server error '' @ str_nat code @ '' after all retries'')))"
  using assms by (auto simp: attempt_action_def)

lemma action_200:
  "attempt_action mr a le (Response 200 tx (Inr j)) = Return j"
  by (simp add: attempt_action_def)

text \<open>After a 401 nothing more happens, wherever in the run it arrives.\<close>

lemma request_loop_401:
  assumes "resp k = Response 401 tx body" and "Post k \<in> set (snd (request_loop mr resp le as))"
  shows "\<exists>evs. request_loop mr resp le as =
           (Inl (Exception ''Authentication failed. Please check your SARVAM_API_KEY.''),
            evs @ [Post k])"
  using assms(2)
proof (induction as arbitrary: le)
  case Nil
  then show ?case by simp
next
  case (Cons a as)
  show ?case
  proof (cases "a = k")
    case True
    then show ?thesis using assms(1) by (simp add: action_401)
  next
    case False
    show ?thesis
    proof (cases "attempt_action mr a le (resp a)")
      case (Return j)
      with Cons.prems False show ?thesis by simp
    next
      case (Raise err)
      with Cons.prems False show ?thesis by simp
    next
      case (WaitContinue l)
      obtain r evs where rl: "request_loop mr resp l as = (r, evs)" by (cases "request_loop mr resp l as")
      with WaitContinue Cons.prems False have "Post k \<in> set (snd (request_loop mr resp l as))" by simp
      from Cons.IH [OF this] obtain evs' where
        "request_loop mr resp l as =
           (Inl (Exception ''Authentication failed. Please check your SARVAM_API_KEY.''), evs' @ [Post k])"
        by blast
      with WaitContinue show ?thesis
        by (intro exI [of _ "Post a # Sleep (2 ^ a) # evs'"]) simp
    next
      case (Continue l)
      obtain r evs where rl: "request_loop mr resp l as = (r, evs)" by (cases "request_loop mr resp l as")
      with Continue Cons.prems False have "Post k \<in> set (snd (request_loop mr resp l as))" by simp
      from Cons.IH [OF this] obtain evs' where
        "request_loop mr resp l as =
           (Inl (Exception ''Authentication failed. Please check your SARVAM_API_KEY.''), evs' @ [Post k])"
        by blast
      with Continue show ?thesis
        by (intro exI [of _ "Post a # evs'"]) simp
    next
      case (Break l)
      with Cons.prems False show ?thesis by simp
    qed
  qed
qed

lemma request_loop_retryable:
  assumes "resp a = Response code tx body" "code = 429 \<or> (500 \<le> code \<and> code < 600)" "int a < mr"
  shows "request_loop mr resp le (a # as) =
     (fst (request_loop mr resp le as), Post a # Sleep (2 ^ a) # snd (request_loop mr resp le as))"
  using assms by (simp add: action_retryable split: prod.splits)

lemma request_loop_retryable_last:
  assumes "resp a = Response code tx body" "code = 429 \<or> (500 \<le> code \<and> code < 600)" "\<not> int a < mr"
  shows "request_loop mr resp le (a # as) =
     (Inl (Exception (if code = 429 then ''Rate limit exceeded after all retries''
                      else ''Server error '' @ str_nat code @ '' after all retries'')), [Post a])"
  using assms by (simp add: action_retryable)

lemma upt_4: "[0 ..< nat (3 + 1)] = [0, 1, 2, 3]"
  by (simp add: upt_rec)

lemma upt_0_4: "[0 ..< 4] = [0, 1, 2, 3::nat]"
  by code_simp

lemma str_nat_500: "str_nat 500 = ''500''"
  by (simp add: str_nat_big str_nat_small digit_char_def)

lemma upt_from_0:
  assumes "2 \<le> mr"
  shows "\<exists>rest. [0 ..< nat (mr + 1)] = 0 # 1 # 2 # rest"
proof -
  from assms have "3 \<le> nat (mr + 1)" by simp
  then obtain m where "nat (mr + 1) = Suc (Suc (Suc m))"
    by (metis Suc_le_D numeral_3_eq_3 Suc_le_mono add_Suc_right le_Suc_ex add.commute)
  then show ?thesis
    by (simp add: upt_rec)
qed

text \<open>
  Claim C5. A run sends at most \<open>max_retries + 1\<close> requests (the length of
  \<open>range(max_retries + 1)\<close>). A 401 response ends the run at once: the request that
  received it is the last event, no sleep follows, and the run fails with the authentication
  error. A 429 or 5xx response to the 0-indexed attempt \<open>a\<close> is followed by a sleep of
  \<open>2 ^ a\<close> seconds and the remaining attempts when \<open>a < max_retries\<close>, and by a
  failure without a sleep on the last attempt. With \<open>max_retries = 3\<close> and every
  response a 500, the run makes exactly 4 requests and fails; with responses 429, 429, 200
  it sleeps 1 and then 2 seconds and returns the body of the 200.
\<close>

theorem make_request_with_retry_protocol:
  "attempts (snd (make_request_with_retry mr resp)) \<le> nat (mr + 1)
   \<and> (resp k = Response 401 tx body \<and> Post k \<in> set (snd (make_request_with_retry mr resp)) \<longrightarrow>
        (\<exists>evs. make_request_with_retry mr resp =
           (Inl (Exception ''Authentication failed. Please check your SARVAM_API_KEY.''),
            evs @ [Post k])))
   \<and> (resp a = Response code tx body \<and> (code = 429 \<or> (500 \<le> code \<and> code < 600)) \<longrightarrow>
        request_loop mr resp le (a # rest) =
          (if int a < mr
           then (fst (request_loop mr resp le rest),
                 Post a # Sleep (2 ^ a) # snd (request_loop mr resp le rest))
           else (Inl (Exception (if code = 429 then ''Rate limit exceeded after all retries''
                                 else ''Server error '' @ str_nat code @ '' after all retries'')),
                 [Post a])))
   \<and> ((\<forall>n. \<exists>t b. resp n = Response 500 t b) \<longrightarrow>
        make_request_with_retry 3 resp =
          (Inl (Exception ''Server error 500 after all retries''),
           [Post 0, Sleep 1, Post 1, Sleep 2, Post 2, Sleep 4, Post 3])
        \<and> attempts (snd (make_request_with_retry 3 resp)) = 4)
   \<and> (2 \<le> mr \<and> resp 0 = Response 429 t0 b0 \<and> resp 1 = Response 429 t1 b1
        \<and> resp 2 = Response 200 t2 (Inr j) \<longrightarrow>
        make_request_with_retry mr resp = (Inr j, [Post 0, Sleep 1, Post 1, Sleep 2, Post 2])
        \<and> waits (snd (make_request_with_retry mr resp)) = [1, 2])"
proof (intro conjI impI)
  show "attempts (snd (make_request_with_retry mr resp)) \<le> nat (mr + 1)"
    using request_loop_attempts [of mr resp None "[0 ..< nat (mr + 1)]"]
    by (simp add: make_request_with_retry_def)
next
  assume "resp k = Response 401 tx body \<and> Post k \<in> set (snd (make_request_with_retry mr resp))"
  then show "\<exists>evs. make_request_with_retry mr resp =
           (Inl (Exception ''Authentication failed. Please check your SARVAM_API_KEY.''),
            evs @ [Post k])"
    unfolding make_request_with_retry_def using request_loop_401 by blast
next
  assume a: "resp a = Response code tx body \<and> (code = 429 \<or> (500 \<le> code \<and> code < 600))"
  show "request_loop mr resp le (a # rest) =
          (if int a < mr
           then (fst (request_loop mr resp le rest),
                 Post a # Sleep (2 ^ a) # snd (request_loop mr resp le rest))
           else (Inl (Exception (if code = 429 then ''Rate limit exceeded after all retries''
                                 else ''Server error '' @ str_nat code @ '' after all retries'')),
                 [Post a]))"
  proof (cases "int a < mr")
    case True
    with a request_loop_retryable [of resp a code tx body mr le rest] show ?thesis by simp
  next
    case False
    with a request_loop_retryable_last [of resp a code tx body mr le rest] show ?thesis by simp
  qed
next
  assume all: "\<forall>n. \<exists>t b. resp n = Response 500 t b"
  have step: "\<And>n le rest. int n < 3 \<Longrightarrow> request_loop 3 resp le (n # rest) =
      (fst (request_loop 3 resp le rest), Post n # Sleep (2 ^ n) # snd (request_loop 3 resp le rest))"
  proof -
    fix n :: nat and le rest
    assume n: "int n < 3"
    from all obtain t b where "resp n = Response 500 t b" by blast
    then show "request_loop 3 resp le (n # rest) =
      (fst (request_loop 3 resp le rest), Post n # Sleep (2 ^ n) # snd (request_loop 3 resp le rest))"
      using n by (intro request_loop_retryable [of resp n 500 t b]) simp_all
  qed
  from all obtain t b where "resp 3 = Response 500 t b" by blast
  then have last: "request_loop 3 resp None [3] =
      (Inl (Exception ''Server error 500 after all retries''), [Post 3])"
    using request_loop_retryable_last [of resp 3 500 t b 3 None "[]"] by (simp add: str_nat_500)
  show run: "make_request_with_retry 3 resp =
          (Inl (Exception ''Server error 500 after all retries''),
           [Post 0, Sleep 1, Post 1, Sleep 2, Post 2, Sleep 4, Post 3])"
    unfolding make_request_with_retry_def upt_4
    using step [of 0] step [of 1] step [of 2] last by simp
  show "attempts (snd (make_request_with_retry 3 resp)) = 4"
    unfolding run by simp
next
  assume a: "2 \<le> mr \<and> resp 0 = Response 429 t0 b0 \<and> resp 1 = Response 429 t1 b1
        \<and> resp 2 = Response 200 t2 (Inr j)"
  then obtain rest where up: "[0 ..< nat (mr + 1)] = 0 # 1 # 2 # rest"
    using upt_from_0 by blast
  have r2: "request_loop mr resp None (2 # rest) = (Inr j, [Post 2])"
    using a by (simp add: action_200)
  have r1: "request_loop mr resp None (1 # 2 # rest) = (Inr j, [Post 1, Sleep 2, Post 2])"
    using a r2 request_loop_retryable [of resp 1 429 t1 b1 mr None "2 # rest"] by simp
  show run: "make_request_with_retry mr resp = (Inr j, [Post 0, Sleep 1, Post 1, Sleep 2, Post 2])"
    unfolding make_request_with_retry_def up
    using a r1 request_loop_retryable [of resp 0 429 t0 b0 mr None "1 # 2 # rest"] by simp
  show "waits (snd (make_request_with_retry mr resp)) = [1, 2]"
    unfolding run by simp
qed

text \<open>A run that is refused at the first request.\<close>

lemma run_401:
  "make_request_with_retry 3 (\<lambda>n. Response 401 ''denied'' (Inl (JSONDecodeError ''no body'')))
     = (Inl (Exception ''Authentication failed. Please check your SARVAM_API_KEY.'') :: error + string,
        [Post 0])"
  by (simp add: make_request_with_retry_def upt_0_4 action_401)

text \<open>The theorem at runs of all-401, all-500 and 429, 429, 200 responses.\<close>

theorem make_request_with_retry_protocol_witness:
  "make_request_with_retry 3 (\<lambda>n. Response 401 ''denied'' (Inl (JSONDecodeError ''no body'')))
     = (Inl (Exception ''Authentication failed. Please check your SARVAM_API_KEY.'') :: error + string,
        [Post 0])
   \<and> attempts (snd (make_request_with_retry 3
        (\<lambda>n. Response 500 ''failure'' (Inl (JSONDecodeError ''no body'') :: error + string)))) = 4
   \<and> waits (snd (make_request_with_retry 3
        (\<lambda>n. Response 500 ''failure'' (Inl (JSONDecodeError ''no body'') :: error + string))))
       = [1, 2, 4]
   \<and> make_request_with_retry 3
        (\<lambda>n. if n < 2 then Response 429 ''slow down'' (Inl (JSONDecodeError ''no body''))
              else Response 200 ''{}'' (Inr ''body''))
       = (Inr ''body'', [Post 0, Sleep 1, Post 1, Sleep 2, Post 2])"
proof -
  let ?r401 = "\<lambda>n::nat. Response 401 ''denied'' (Inl (JSONDecodeError ''no body'') :: error + string)"
  let ?r500 = "\<lambda>n::nat. Response 500 ''failure'' (Inl (JSONDecodeError ''no body'') :: error + string)"
  let ?r429 = "\<lambda>n::nat. if n < 2 then Response 429 ''slow down'' (Inl (JSONDecodeError ''no body''))
              else Response 200 ''{}'' (Inr ''body'')"
  have p: "Post 0 \<in> set (snd (make_request_with_retry 3 ?r401))"
    unfolding run_401 by simp
  have a: "\<forall>n. \<exists>t b. ?r500 n = Response 500 t b" by simp
  show ?thesis
    using make_request_with_retry_protocol [of 3 ?r401 0 "''denied''" "Inl (JSONDecodeError ''no body'')"]
      make_request_with_retry_protocol [of 3 ?r500 0 "''failure''" "Inl (JSONDecodeError ''no body'')"
         0 500 None "[]"]
      make_request_with_retry_protocol [of 3 ?r429 0 "''x''" "Inr ''x''" 0 429 None "[]"
         "''slow down''" "Inl (JSONDecodeError ''no body'')"
         "''slow down''" "Inl (JSONDecodeError ''no body'')" "''{}''" "''body''"]
      p a run_401
    by simp
qed

text \<open>
  Claim C6 at its failing input. With \<open>max_retries = 3\<close> and every response a 200
  whose body is not JSON, \<open>response.json()\<close> of requests 2.27 or later raises
  \<open>requests.exceptions.JSONDecodeError\<close>; the run then makes 4 requests with sleeps of
  1, 2 and 4 seconds before it fails. Only a plain \<open>json.JSONDecodeError\<close> ends the
  run at the first request.
\<close>

theorem json_decode_error_is_retried:
  "make_request_with_retry 3
      (\<lambda>n. Response 200 ''<html>'' (Inl (RequestsJSONDecodeError ''Expecting value'')))
     = (Inl (RequestsJSONDecodeError ''Expecting value'') :: error + string,
        [Post 0, Sleep 1, Post 1, Sleep 2, Post 2, Sleep 4, Post 3])
   \<and> make_request_with_retry 3
      (\<lambda>n. Response 200 ''<html>'' (Inl (JSONDecodeError ''Expecting value'')))
     = (Inl (JSONDecodeError ''Expecting value'') :: error + string, [Post 0])"
  by (simp add: make_request_with_retry_def upt_0_4 attempt_action_def handle_exception_def)

section \<open>Properties of the RAG engine\<close>















section \<open>Properties of the agent tool and the network front-end\<close>

text \<open>
  Claim C7 at its failing input. An order for the unknown product id P999 makes the order
  processor return a result record whose message is "Product P999 not found."; the tool
  returns that whole record, not the message string. When an exception escapes the
  processor object, the tool returns the apology with the exception's message.
\<close>

theorem process_order_tool_returns_record:
  "process_order_tool
      (order_processor_method simple_builtins
         \<lparr>uuid_hex = ''a1b2c3d4e5f60718293a4b5c6d7e8f90'', today = ''2024-05-01'', append_ok = True\<rparr>)
      \<lparr>products = [], ledger = []\<rparr>
      (PyStr ''P999'') (PyInt 1) (PyStr ''12 Main St'') PyNone
     = (ResultRecord (failure_result ''Product P999 not found.''), \<lparr>products = [], ledger = []\<rparr>)
   \<and> process_order_tool
      (order_processor_method simple_builtins
         \<lparr>uuid_hex = ''a1b2c3d4e5f60718293a4b5c6d7e8f90'', today = ''2024-05-01'', append_ok = True\<rparr>)
      \<lparr>products = [], ledger = []\<rparr>
      (PyStr ''P999'') (PyInt 1) (PyStr ''12 Main St'') PyNone
     \<noteq> (Text ''Product P999 not found.'', \<lparr>products = [], ledger = []\<rparr>)
   \<and> process_order_tool failing_processor_method
      \<lparr>products = [], ledger = []\<rparr>
      (PyStr ''P999'') (PyInt 1) (PyStr ''12 Main St'') PyNone
     = (Text (''I'' @ sq @ ''m sorry, I encountered an error while placing your order: disk full''),
        \<lparr>products = [], ledger = []\<rparr>)"
  by (simp add: process_order_tool_def order_processor_method_def failing_processor_method_def
        process_order_def process_order_body_def Order_new_def Order_post_init_def
        validate_product_availability_def get_similar_products_def Let_def)

text \<open>
  Claim C9. With a password other than \<open>abcd1234\<close> the handler returns the fixed
  rejection payload and makes no call into the assistant; any call into the assistant, and
  so any forwarding of a query, happens only with that password, and the query forwarded is
  the request's own; with that password, a chat interface that initialises and an
  orchestrator that answers, the answer comes back under the key \<open>result\<close>.
\<close>

theorem response_endpoint_gate:
  "(password \<noteq> ''abcd1234'' \<longrightarrow>
      response_endpoint init agent_chat password query
        = (Inr (PySet [''result: Incorrect Password'']), []))
   \<and> (snd (response_endpoint init agent_chat password query) \<noteq> [] \<longrightarrow> password = ''abcd1234'')
   \<and> (AgentChat q' \<in> set (snd (response_endpoint init agent_chat password query)) \<longrightarrow>
        password = ''abcd1234'' \<and> q' = query)
   \<and> (password = ''abcd1234'' \<and> init = None \<and> agent_chat query = Inr answer \<longrightarrow>
        response_endpoint init agent_chat password query
          = (Inr (PyDict [(''result'', Some answer)]), [ConstructChatInterface, AgentChat query]))"
  by (auto simp: response_endpoint_def agentic_endpoint_def split: option.splits)

text \<open>The theorem at a wrong and at the right password.\<close>

theorem response_endpoint_gate_witness:
  "''guess'' \<noteq> ''abcd1234''
   \<and> response_endpoint None (\<lambda>q. Inr (''You asked: '' @ q)) ''guess'' ''lamps''
       = (Inr (PySet [''result: Incorrect Password'']), [])
   \<and> AgentChat ''lamps'' \<in> set (snd (response_endpoint None (\<lambda>q. Inr (''You asked: '' @ q))
                                       ''abcd1234'' ''lamps''))
   \<and> response_endpoint None (\<lambda>q. Inr (''You asked: '' @ q)) ''abcd1234'' ''lamps''
       = (Inr (PyDict [(''result'', Some ''You asked: lamps'')]),
          [ConstructChatInterface, AgentChat ''lamps''])"
  using response_endpoint_gate [of "''guess''" None "\<lambda>q. Inr (''You asked: '' @ q)" "''lamps''"
          "''lamps''" "''You asked: lamps''"]
    response_endpoint_gate [of "''abcd1234''" None "\<lambda>q. Inr (''You asked: '' @ q)" "''lamps''"
          "''lamps''" "''You asked: lamps''"]
  by simp

end
